theory Spec2Isabelle
  imports Complex_Main
begin

section \<open>Python values\<close>

text \<open>
  The orchestrator passes untyped dictionaries around: the session context, the analysis
  (the Plan) and the workflow steps are all \<^verbatim>\<open>Dict\<close> values, built from literals,
  from protobuf scalars or by \<^verbatim>\<open>json.loads\<close>. They are modelled by one datatype of
  Python values. Every dictionary of the program has string keys; a dictionary is an
  association list in insertion order, looked up with \<^const>\<open>map_of\<close>. Floats are
  never computed on, only passed through, so a real number stands for them.
\<close>

datatype py =
    PyNone
  | PyBool bool
  | PyInt int
  | PyFloat real
  | PyStr string
  | PyList "py list"
  | PyDict "(string \<times> py) list"

type_synonym py_dict = "(string \<times> py) list"

text \<open>The failure of a remote call: \<^verbatim>\<open>grpc.RpcError\<close> with its details.\<close>

datatype rpc_error = RpcError string

text \<open>
  The exceptions the modelled code can meet, all of them subclasses of
  \<^verbatim>\<open>Exception\<close>. An interrupt or a cancellation of the task is outside the model.
\<close>

datatype py_exception =
    KeyError string
  | TypeError
  | AttributeError
  | IndexError
  | RecursionError
  | JSONDecodeError
  | GrpcError rpc_error
  | OtherException string

text \<open>\<^verbatim>\<open>d.get(key)\<close> and \<^verbatim>\<open>d.get(key, default)\<close> on a dictionary.\<close>

definition dict_get :: "py_dict \<Rightarrow> string \<Rightarrow> py \<Rightarrow> py" where
  "dict_get d k dflt = (case map_of d k of None \<Rightarrow> dflt | Some v \<Rightarrow> v)"

text \<open>
  \<^verbatim>\<open>v[key]\<close> with a string key: a dictionary raises KeyError when the key is
  missing; a string or a list wants an integer index and every other value is not
  subscriptable, both a TypeError.
\<close>

fun py_getitem :: "py \<Rightarrow> string \<Rightarrow> py_exception + py" where
  "py_getitem (PyDict d) k = (case map_of d k of None \<Rightarrow> Inl (KeyError k) | Some v \<Rightarrow> Inr v)"
| "py_getitem _ k = Inl TypeError"

text \<open>\<^verbatim>\<open>v.get(key)\<close>: only a dictionary has the method.\<close>

fun py_get :: "py \<Rightarrow> string \<Rightarrow> py_exception + py" where
  "py_get (PyDict d) k = Inr (dict_get d k PyNone)"
| "py_get _ k = Inl AttributeError"

text \<open>The truth value of \<^verbatim>\<open>if v:\<close>.\<close>

fun py_truthy :: "py \<Rightarrow> bool" where
  "py_truthy PyNone = False"
| "py_truthy (PyBool b) = b"
| "py_truthy (PyInt n) = (n \<noteq> 0)"
| "py_truthy (PyFloat x) = (x \<noteq> 0)"
| "py_truthy (PyStr s) = (s \<noteq> [])"
| "py_truthy (PyList xs) = (xs \<noteq> [])"
| "py_truthy (PyDict d) = (d \<noteq> [])"

text \<open>
  \<^verbatim>\<open>for x in v\<close>: a list gives its elements, a string its characters, a dictionary
  its keys; nothing else is iterable.
\<close>

fun py_iter :: "py \<Rightarrow> py_exception + py list" where
  "py_iter (PyList xs) = Inr xs"
| "py_iter (PyStr s) = Inr (map (\<lambda>c. PyStr [c]) s)"
| "py_iter (PyDict d) = Inr (map (\<lambda>(k, v). PyStr k) d)"
| "py_iter _ = Inl TypeError"

text \<open>
  \<^verbatim>\<open>x in d\<close> for a dictionary with string keys: a list or a dictionary is
  unhashable (TypeError), a string is looked up, any other value equals no key.
\<close>

fun py_in :: "py \<Rightarrow> (string \<rightharpoonup> 'v) \<Rightarrow> py_exception + bool" where
  "py_in (PyStr s) m = Inr (m s \<noteq> None)"
| "py_in (PyList xs) m = Inl TypeError"
| "py_in (PyDict d) m = Inl TypeError"
| "py_in _ m = Inr False"

section \<open>Strings\<close>

text \<open>
  \<^verbatim>\<open>str.lower()\<close> on the ASCII range: the letters A to Z are mapped to a to z and
  every other byte is kept.
\<close>

definition lower_char :: "char \<Rightarrow> char" where
  "lower_char c =
     (case map_of (zip ''ABCDEFGHIJKLMNOPQRSTUVWXYZ'' ''abcdefghijklmnopqrstuvwxyz'') c of
        None \<Rightarrow> c
      | Some l \<Rightarrow> l)"

definition lower :: "string \<Rightarrow> string" where
  "lower s = map lower_char s"

fun startswith :: "string \<Rightarrow> string \<Rightarrow> bool" where
  "startswith s [] = True"
| "startswith [] (p # ps) = False"
| "startswith (c # cs) (p # ps) = (c = p \<and> startswith cs ps)"

text \<open>\<^verbatim>\<open>word in text\<close>: the word occurs as a contiguous substring.\<close>

fun str_contains :: "string \<Rightarrow> string \<Rightarrow> bool" where
  "str_contains [] w = (w = [])"
| "str_contains (c # cs) w = (startswith (c # cs) w \<or> str_contains cs w)"

text \<open>\<^verbatim>\<open>any(word in text for word in words)\<close>.\<close>

definition any_word_in :: "string list \<Rightarrow> string \<Rightarrow> bool" where
  "any_word_in ws s = list_ex (str_contains s) ws"

text \<open>\<^verbatim>\<open>str(n)\<close> for a natural number and for an integer: the decimal digits.\<close>

definition digit_char :: "nat \<Rightarrow> char" where
  "digit_char d = ''0123456789'' ! d"

fun str_nat :: "nat \<Rightarrow> string" where
  "str_nat n = (if n < 10 then [digit_char n] else str_nat (n div 10) @ [digit_char (n mod 10)])"

declare str_nat.simps [simp del]

definition str_int :: "int \<Rightarrow> string" where
  "str_int i = (if i < 0 then CHR ''-'' # str_nat (nat (- i)) else str_nat (nat i))"

section \<open>Intent analysis by keyword rules\<close>

text \<open>
  \<^verbatim>\<open>_analyze_with_patterns\<close>: the lowered prompt is tried against three keyword
  lists in the order of the source; the first list with a hit decides the Plan.
\<close>

definition cleanup_words :: "string list" where
  "cleanup_words = [''clean'', ''cleanup'', ''fix'', ''duplicate'', ''short'']"

definition melody_words :: "string list" where
  "melody_words = [''melody'', ''tune'', ''song'', ''compose'']"

definition drum_words :: "string list" where
  "drum_words = [''drum'', ''beat'', ''rhythm'', ''percussion'']"

definition analyze_with_patterns :: "string \<Rightarrow> py_dict \<Rightarrow> py" where
  "analyze_with_patterns user_prompt session_context =
     (let prompt_lower = lower user_prompt in
      if any_word_in cleanup_words prompt_lower then
        PyDict [
          (''intent'', PyStr ''Clean up MIDI recording''),
          (''complexity'', PyStr ''simple''),
          (''workflow'', PyList [PyDict [
             (''agent_type'', PyStr ''utility''),
             (''action'', PyStr ''cleanup_recording''),
             (''parameters'', PyDict [
                (''clip_id'', dict_get session_context ''selected_clip'' PyNone)]),
             (''depends_on'', PyList [])]])]
      else if any_word_in melody_words prompt_lower then
        PyDict [
          (''intent'', PyStr ''Generate melody''),
          (''complexity'', PyStr ''medium''),
          (''workflow'', PyList [PyDict [
             (''agent_type'', PyStr ''melody''),
             (''action'', PyStr ''generate_melody''),
             (''parameters'', PyDict [
                (''style'', PyStr ''detect from prompt''),
                (''key'', dict_get session_context ''key'' (PyStr ''C major'')),
                (''length_bars'', PyInt 8)]),
             (''depends_on'', PyList [])]])]
      else if any_word_in drum_words prompt_lower then
        PyDict [
          (''intent'', PyStr ''Generate drum pattern''),
          (''complexity'', PyStr ''medium''),
          (''workflow'', PyList [PyDict [
             (''agent_type'', PyStr ''percussion''),
             (''action'', PyStr ''generate_drums''),
             (''parameters'', PyDict [
                (''style'', PyStr ''detect from prompt''),
                (''tempo'', dict_get session_context ''tempo'' (PyInt 120)),
                (''bars'', PyInt 4)]),
             (''depends_on'', PyList [])]])]
      else
        PyDict [
          (''intent'', PyStr ''Unknown request''),
          (''complexity'', PyStr ''complex''),
          (''workflow'', PyList [])])"

section \<open>The remote service and the reasoning service\<close>

text \<open>
  The protobuf messages the code reads. Their declarations are generated code outside
  the sources, so a record has the fields the orchestrator reads. The fields of a track
  are prefixed, as two records cannot share a field name. A numeric field that is only
  passed on is a Python value.
\<close>

record agent_info =
  agent_id :: string
  name :: string
  type :: string
  capabilities :: "string list"

record transport_state =
  tempo :: py
  time_sig_num :: int
  time_sig_den :: int
  current_time :: py
  playing :: bool

record track =
  track_id :: py
  track_name :: string
  track_type :: py

record session_info =
  session_name :: string
  sample_rate :: py

record send_message_request =
  target_agent_id :: string
  message :: string

record send_message_response =
  success :: bool
  response_message :: string

text \<open>
  The system prompt of \<^verbatim>\<open>_analyze_with_llm\<close>, as the values that its text
  interpolates: the keys of the agent mapping, the name and capabilities of each agent,
  the session context as JSON text, and the request.
\<close>

record system_prompt =
  available_agents :: "string list"
  agent_capabilities :: "(string \<times> string list) list"
  current_session :: string
  user_request :: string

text \<open>
  Everything outside the orchestrator's own code, as one value: what each remote query
  answers (an RpcError or a reply), what the service answers to a request to send a
  message, what the reasoning service answers to a system prompt and a user message
  (an exception, or the contents of the choices of its response), and the library
  calls that can fail: \<^verbatim>\<open>json.loads(text)\<close>, \<^verbatim>\<open>json.dumps(value, indent=...)\<close>
  (a RecursionError on a value nested too deeply), and the formatting of a value that
  is not a string into an f-string (the same).
\<close>

record externals =
  GetConnectedAgents :: "rpc_error + agent_info list"
  GetTransportState :: "rpc_error + transport_state"
  GetTracks :: "rpc_error + track list"
  GetSessionInfo :: "rpc_error + session_info"
  SendMessageToAgent :: "send_message_request \<Rightarrow> rpc_error + send_message_response"
  acreate :: "system_prompt \<Rightarrow> string \<Rightarrow> py_exception + string list"
  json_loads :: "string \<Rightarrow> py_exception + py"
  json_dumps :: "py \<Rightarrow> nat option \<Rightarrow> py_exception + string"
  format_error :: "py \<Rightarrow> py_exception option"

text \<open>
  \<^verbatim>\<open>f"{v}"\<close>: the exception that formatting the value raises, if any. A string is
  formatted as itself.
\<close>

fun format_raises :: "externals \<Rightarrow> py \<Rightarrow> py_exception option" where
  "format_raises ext (PyStr s) = None"
| "format_raises ext v = format_error ext v"

text \<open>
  The log: one constructor for each \<^verbatim>\<open>logger\<close> call of the modelled methods, with
  the values its message interpolates. Step numbers in the log are \<^verbatim>\<open>i+1\<close>.
\<close>

datatype log_entry =
    FoundAgents nat
  | AgentLine string string "string list"
  | FailedToGetAgents rpc_error
  | LlmAnalysis py
  | LlmAnalysisFailed py_exception
  | ExecutingWorkflow nat
  | StepLine nat py py
  | DependencyNotCompleted py
  | NoAgentAvailable py
  | StepSent nat string
  | StepFailed nat string
  | StepError nat rpc_error
  | FailedToGetSessionContext rpc_error

datatype log_level = INFO | ERROR

fun levelname :: "log_entry \<Rightarrow> log_level" where
  "levelname (FoundAgents n) = INFO"
| "levelname (AgentLine n t cs) = INFO"
| "levelname (FailedToGetAgents e) = ERROR"
| "levelname (LlmAnalysis v) = INFO"
| "levelname (LlmAnalysisFailed e) = ERROR"
| "levelname (ExecutingWorkflow n) = INFO"
| "levelname (StepLine n a t) = INFO"
| "levelname (DependencyNotCompleted d) = ERROR"
| "levelname (NoAgentAvailable t) = ERROR"
| "levelname (StepSent n a) = INFO"
| "levelname (StepFailed n m) = ERROR"
| "levelname (StepError n e) = ERROR"
| "levelname (FailedToGetSessionContext e) = ERROR"

text \<open>The fields of \<^verbatim>\<open>self\<close> that the modelled methods read or write.\<close>

record orchestrator =
  connected_agents :: "(string \<times> agent_info) list"
  llm_available :: bool

section \<open>Agent Directory\<close>

text \<open>
  \<^verbatim>\<open>d[k] = v\<close> on an insertion-ordered dictionary: an existing key keeps its
  place and takes the new value, a new key goes to the end.
\<close>

fun dict_setitem :: "('k \<times> 'v) list \<Rightarrow> 'k \<Rightarrow> 'v \<Rightarrow> ('k \<times> 'v) list" where
  "dict_setitem [] k v = [(k, v)]"
| "dict_setitem ((k', v') # d) k v =
     (if k' = k then (k, v) # d else (k', v') # dict_setitem d k v)"

text \<open>
  \<^verbatim>\<open>get_connected_agents\<close> returns the value the method returns, the updated
  \<^verbatim>\<open>self\<close> and the lines it logs.
\<close>

definition get_connected_agents ::
  "externals \<Rightarrow> orchestrator \<Rightarrow> agent_info list \<times> orchestrator \<times> log_entry list" where
  "get_connected_agents ext self =
     (case GetConnectedAgents ext of
        Inr agents \<Rightarrow>
          (agents,
           self\<lparr>connected_agents :=
             foldl (\<lambda>d agent. dict_setitem d (agent_id agent) agent) [] agents\<rparr>,
           FoundAgents (length agents)
             # map (\<lambda>agent. AgentLine (name agent) (type agent) (capabilities agent)) agents)
      | Inl e \<Rightarrow> ([], self, [FailedToGetAgents e]))"

section \<open>Intent analysis with the reasoning service\<close>

text \<open>
  The try block of \<^verbatim>\<open>_analyze_with_llm\<close>: it asks the reasoning service, takes the
  content of the first choice, parses it, and reads and formats its \<^verbatim>\<open>intent\<close>
  for the log. The result is the first exception of the block, or the analysis with its
  intent.
\<close>

definition llm_try_block ::
  "externals \<Rightarrow> system_prompt \<Rightarrow> string \<Rightarrow> py_exception + (py \<times> py)" where
  "llm_try_block ext prompt user_prompt =
     (case acreate ext prompt user_prompt of
        Inl e \<Rightarrow> Inl e
      | Inr choices \<Rightarrow>
          (case choices of
             [] \<Rightarrow> Inl IndexError
           | content # _ \<Rightarrow>
               (case json_loads ext content of
                  Inl e \<Rightarrow> Inl e
                | Inr analysis \<Rightarrow>
                    (case py_getitem analysis ''intent'' of
                       Inl e \<Rightarrow> Inl e
                     | Inr intent \<Rightarrow>
                         (case format_raises ext intent of
                            Some e \<Rightarrow> Inl e
                          | None \<Rightarrow> Inr (analysis, intent))))))"

text \<open>
  \<^verbatim>\<open>_analyze_with_llm\<close>: the system prompt is built first, outside the try block,
  and encoding the session context for it can raise; that exception leaves the method.
  Every exception of the try block is caught, and the keyword rules answer instead.
  The result is the exception that leaves the method or the analysis it returns, and
  the lines it logs.
\<close>

definition analyze_with_llm ::
  "externals \<Rightarrow> orchestrator \<Rightarrow> string \<Rightarrow> py_dict \<Rightarrow> (py_exception + py) \<times> log_entry list" where
  "analyze_with_llm ext self user_prompt session_context =
     (case json_dumps ext (PyDict session_context) (Some 2) of
        Inl e \<Rightarrow> (Inl e, [])
      | Inr session_text \<Rightarrow>
          (case llm_try_block ext
                  \<lparr>available_agents = map fst (connected_agents self),
                   agent_capabilities =
                     map (\<lambda>(k, agent). (name agent, capabilities agent)) (connected_agents self),
                   current_session = session_text,
                   user_request = user_prompt\<rparr>
                  user_prompt of
             Inr (analysis, intent) \<Rightarrow> (Inr analysis, [LlmAnalysis intent])
           | Inl e \<Rightarrow>
               (Inr (analyze_with_patterns user_prompt session_context),
                [LlmAnalysisFailed e])))"

definition analyze_user_intent ::
  "externals \<Rightarrow> orchestrator \<Rightarrow> string \<Rightarrow> py_dict \<Rightarrow> (py_exception + py) \<times> log_entry list" where
  "analyze_user_intent ext self user_prompt session_context =
     (if llm_available self then analyze_with_llm ext self user_prompt session_context
      else (Inr (analyze_with_patterns user_prompt session_context), []))"

section \<open>Session Snapshot Reader\<close>

text \<open>
  \<^verbatim>\<open>get_session_context\<close>: one try block around the three queries and the
  construction of the dictionary; an RpcError of any query is logged and the empty
  dictionary is returned.
\<close>

definition track_dict :: "track \<Rightarrow> py" where
  "track_dict t =
     PyDict [(''id'', track_id t), (''name'', PyStr (track_name t)), (''type'', track_type t)]"

definition get_session_context :: "externals \<Rightarrow> py_dict \<times> log_entry list" where
  "get_session_context ext =
     (case GetTransportState ext of
        Inl e \<Rightarrow> ([], [FailedToGetSessionContext e])
      | Inr transport \<Rightarrow>
     (case GetTracks ext of
        Inl e \<Rightarrow> ([], [FailedToGetSessionContext e])
      | Inr tracks \<Rightarrow>
     (case GetSessionInfo ext of
        Inl e \<Rightarrow> ([], [FailedToGetSessionContext e])
      | Inr session \<Rightarrow>
          ([(''tempo'', tempo transport),
            (''time_signature'',
               PyStr (str_int (time_sig_num transport) @ ''/'' @ str_int (time_sig_den transport))),
            (''current_time'', current_time transport),
            (''playing'', PyBool (playing transport)),
            (''track_count'', PyInt (int (length tracks))),
            (''tracks'', PyList (map track_dict tracks)),
            (''session_name'', PyStr (session_name session)),
            (''sample_rate'', sample_rate session)],
           []))))"

section \<open>Workflow Dispatcher\<close>

text \<open>
  What \<^verbatim>\<open>execute_workflow\<close> changes while it runs: its local dictionary
  \<^verbatim>\<open>completed_steps\<close>, the log, and the requests handed to
  \<^verbatim>\<open>SendMessageToAgent\<close>, in order. The method has no \<^verbatim>\<open>return\<close>: the model's
  result is the exception that leaves it, if any, and this state.
\<close>

record dispatch_state =
  completed_steps :: "string \<rightharpoonup> bool"
  logged :: "log_entry list"
  sent :: "send_message_request list"

definition log_line :: "log_entry \<Rightarrow> dispatch_state \<Rightarrow> dispatch_state" where
  "log_line e st = st\<lparr>logged := logged st @ [e]\<rparr>"

text \<open>The identifier \<^verbatim>\<open>f"step_{i}"\<close>.\<close>

definition step_id :: "nat \<Rightarrow> string" where
  "step_id i = ''step_'' @ str_nat i"

text \<open>
  The loop over the dependencies: each one that is not a key of
  \<^verbatim>\<open>completed_steps\<close> is formatted and logged. The \<^verbatim>\<open>continue\<close> after the log
  line belongs to this inner loop and goes on with the next dependency.
\<close>

fun check_dependencies ::
  "externals \<Rightarrow> py list \<Rightarrow> dispatch_state \<Rightarrow> py_exception option \<times> dispatch_state" where
  "check_dependencies ext [] st = (None, st)"
| "check_dependencies ext (dep # deps) st =
     (case py_in dep (completed_steps st) of
        Inl e \<Rightarrow> (Some e, st)
      | Inr True \<Rightarrow> check_dependencies ext deps st
      | Inr False \<Rightarrow>
          (case format_raises ext dep of
             Some e \<Rightarrow> (Some e, st)
           | None \<Rightarrow> check_dependencies ext deps (log_line (DependencyNotCompleted dep) st)))"

text \<open>
  The loop over \<^verbatim>\<open>self.connected_agents.values()\<close>: the first agent whose type
  equals the step's \<^verbatim>\<open>agent_type\<close>. A string equals only the same string. The
  result \<open>None\<close> is the \<^verbatim>\<open>target_agent = None\<close> that the test
  \<^verbatim>\<open>if not target_agent\<close> catches; an agent that was found is a protobuf message
  and passes the test.
\<close>

fun find_agent :: "(string \<times> agent_info) list \<Rightarrow> py \<Rightarrow> agent_info option" where
  "find_agent [] t = None"
| "find_agent ((k, agent) # rest) t =
     (if PyStr (type agent) = t then Some agent else find_agent rest t)"

text \<open>The dictionary \<^verbatim>\<open>message\<close> of lines 223 to 227.\<close>

definition message_dict :: "py \<Rightarrow> py \<Rightarrow> string \<Rightarrow> py" where
  "message_dict action params sid =
     PyDict [(''task'', action), (''parameters'', params), (''step_id'', PyStr sid)]"

text \<open>The try block around the send: the acknowledgment decides what is recorded.\<close>

definition send_task ::
  "externals \<Rightarrow> agent_info \<Rightarrow> nat \<Rightarrow> send_message_request \<Rightarrow> dispatch_state \<Rightarrow> dispatch_state" where
  "send_task ext target_agent i send_req st =
     (let st' = st\<lparr>sent := sent st @ [send_req]\<rparr> in
      case SendMessageToAgent ext send_req of
        Inr resp \<Rightarrow>
          if success resp then
            (log_line (StepSent (i + 1) (name target_agent) ) st')
              \<lparr>completed_steps := (completed_steps st')(step_id i \<mapsto> True)\<rparr>
          else log_line (StepFailed (i + 1) (response_message resp)) st'
      | Inl e \<Rightarrow> log_line (StepError (i + 1) e) st')"

text \<open>
  Lines 211 to 242 of the loop body: find the agent; without one, log and go to the next
  step; with one, build the message (which reads \<^verbatim>\<open>step["parameters"]\<close>), encode
  it with \<^verbatim>\<open>json.dumps\<close> and build the request, all before the try block, so that an
  exception of the encoder leaves the method; then send.
\<close>

definition resolve_and_send ::
  "externals \<Rightarrow> orchestrator \<Rightarrow> nat \<Rightarrow> py \<Rightarrow> py \<Rightarrow> py \<Rightarrow> dispatch_state
     \<Rightarrow> py_exception option \<times> dispatch_state" where
  "resolve_and_send ext self i step action agent_type st =
     (case find_agent (connected_agents self) agent_type of
        None \<Rightarrow> (None, log_line (NoAgentAvailable agent_type) st)
      | Some target_agent \<Rightarrow>
          (case py_getitem step ''parameters'' of
             Inl e \<Rightarrow> (Some e, st)
           | Inr params \<Rightarrow>
               (case json_dumps ext (message_dict action params (step_id i)) None of
                  Inl e \<Rightarrow> (Some e, st)
                | Inr text \<Rightarrow>
                    (None,
                     send_task ext target_agent i
                       \<lparr>target_agent_id = agent_id target_agent, message = text\<rparr> st))))"

text \<open>
  Lines 204 to 209: the dependency check runs only for a truthy
  \<^verbatim>\<open>step.get("depends_on")\<close>.
\<close>

definition dependency_check ::
  "externals \<Rightarrow> py \<Rightarrow> dispatch_state \<Rightarrow> py_exception option \<times> dispatch_state" where
  "dependency_check ext step st =
     (case py_get step ''depends_on'' of
        Inl e \<Rightarrow> (Some e, st)
      | Inr v \<Rightarrow>
          if py_truthy v then
            (case py_getitem step ''depends_on'' of
               Inl e \<Rightarrow> (Some e, st)
             | Inr ds \<Rightarrow>
                 (case py_iter ds of
                    Inl e \<Rightarrow> (Some e, st)
                  | Inr deps \<Rightarrow> check_dependencies ext deps st))
          else (None, st))"

text \<open>
  The log line of line 202 reads and formats the action, then reads and formats the
  agent type.
\<close>

definition step_line_values :: "externals \<Rightarrow> py \<Rightarrow> py_exception + (py \<times> py)" where
  "step_line_values ext step =
     (case py_getitem step ''action'' of
        Inl e \<Rightarrow> Inl e
      | Inr action \<Rightarrow>
     (case format_raises ext action of
        Some e \<Rightarrow> Inl e
      | None \<Rightarrow>
     (case py_getitem step ''agent_type'' of
        Inl e \<Rightarrow> Inl e
      | Inr agent_type \<Rightarrow>
     (case format_raises ext agent_type of
        Some e \<Rightarrow> Inl e
      | None \<Rightarrow> Inr (action, agent_type)))))"

text \<open>One pass of the loop body, for the step at index \<open>i\<close>.\<close>

definition execute_step ::
  "externals \<Rightarrow> orchestrator \<Rightarrow> nat \<Rightarrow> py \<Rightarrow> dispatch_state
     \<Rightarrow> py_exception option \<times> dispatch_state" where
  "execute_step ext self i step st =
     (case step_line_values ext step of
        Inl e \<Rightarrow> (Some e, st)
      | Inr (action, agent_type) \<Rightarrow>
     (case dependency_check ext step (log_line (StepLine (i + 1) action agent_type) st) of
        (Some e, st') \<Rightarrow> (Some e, st')
      | (None, st') \<Rightarrow> resolve_and_send ext self i step action agent_type st'))"

text \<open>The loop \<^verbatim>\<open>for i, step in enumerate(workflow)\<close>, over the enumerated steps.\<close>

fun execute_steps ::
  "externals \<Rightarrow> orchestrator \<Rightarrow> (nat \<times> py) list \<Rightarrow> dispatch_state
     \<Rightarrow> py_exception option \<times> dispatch_state" where
  "execute_steps ext self [] st = (None, st)"
| "execute_steps ext self ((i, step) # rest) st =
     (case execute_step ext self i step st of
        (Some e, st') \<Rightarrow> (Some e, st')
      | (None, st') \<Rightarrow> execute_steps ext self rest st')"

text \<open>
  The state in which the loop starts: the first log line is written and
  \<^verbatim>\<open>completed_steps = {}\<close>.
\<close>

definition initial_state :: "py list \<Rightarrow> dispatch_state" where
  "initial_state workflow =
     \<lparr>completed_steps = Map.empty, logged = [ExecutingWorkflow (length workflow)], sent = []\<rparr>"

definition execute_workflow ::
  "externals \<Rightarrow> orchestrator \<Rightarrow> py list \<Rightarrow> py_exception option \<times> dispatch_state" where
  "execute_workflow ext self workflow =
     execute_steps ext self (enumerate 0 workflow) (initial_state workflow)"

section \<open>Reading the dispatcher's log\<close>

text \<open>
  \<^verbatim>\<open>execute_workflow\<close> returns no value: what it reports, it logs. A pass of the
  loop that is not left by an exception ends with one of four lines: no agent of the
  type is available, the step was sent, the send was answered with a failure, or the
  send raised an RpcError. These are the outcome lines. The report is the list of
  outcome lines, each with the number of the step that the last "Step n" line before it
  announced. The lines about dependencies are not outcomes.
\<close>

fun is_outcome :: "log_entry \<Rightarrow> bool" where
  "is_outcome (NoAgentAvailable t) = True"
| "is_outcome (StepSent n a) = True"
| "is_outcome (StepFailed n m) = True"
| "is_outcome (StepError n e) = True"
| "is_outcome _ = False"

fun outcome_report_from :: "nat \<Rightarrow> log_entry list \<Rightarrow> (nat \<times> log_entry) list" where
  "outcome_report_from cur [] = []"
| "outcome_report_from cur (StepLine n a t # es) = outcome_report_from n es"
| "outcome_report_from cur (e # es) =
     (if is_outcome e then (cur, e) # outcome_report_from cur es
      else outcome_report_from cur es)"

definition outcome_report :: "log_entry list \<Rightarrow> (nat \<times> log_entry) list" where
  "outcome_report es = outcome_report_from 0 es"

text \<open>The step number announced last in a log.\<close>

fun current_step :: "nat \<Rightarrow> log_entry list \<Rightarrow> nat" where
  "current_step cur [] = cur"
| "current_step cur (StepLine n a t # es) = current_step n es"
| "current_step cur (e # es) = current_step cur es"

section \<open>The vocabulary of the statements\<close>

text \<open>
  What the properties of the dispatcher expect of a run is written in terms of the
  library, not of the functions the run is computed with: the first agent of a type in
  the directory, in the order of the mapping; the value of a step under a key; the
  message of the step at index \<open>i\<close>; the request that carries a text to an agent.
  These are abbreviations: a statement that uses them is a statement about
  \<^const>\<open>List.find\<close>, lists and records.
\<close>

definition field :: "py \<Rightarrow> string \<Rightarrow> py" where
  "field v k = (case v of PyDict d \<Rightarrow> (case map_of d k of Some x \<Rightarrow> x | None \<Rightarrow> PyNone)
                | _ \<Rightarrow> PyNone)"

abbreviation first_agent :: "orchestrator \<Rightarrow> py \<Rightarrow> agent_info option" where
  "first_agent self t \<equiv>
     List.find (\<lambda>agent. PyStr (type agent) = t) (map snd (connected_agents self))"

abbreviation task_message :: "nat \<Rightarrow> py \<Rightarrow> py" where
  "task_message i step \<equiv>
     PyDict [(''task'', field step ''action''),
             (''parameters'', field step ''parameters''),
             (''step_id'', PyStr (''step_'' @ str_nat i))]"

abbreviation request_to :: "agent_info \<Rightarrow> string \<Rightarrow> send_message_request" where
  "request_to target_agent text \<equiv> \<lparr>target_agent_id = agent_id target_agent, message = text\<rparr>"

text \<open>
  The outcome line for the answer of the service to the request of the step at index
  \<open>i\<close>.
\<close>

abbreviation answer_line ::
  "nat \<Rightarrow> agent_info \<Rightarrow> rpc_error + send_message_response \<Rightarrow> log_entry" where
  "answer_line i target_agent answer \<equiv>
     (case answer of
        Inr resp \<Rightarrow>
          if success resp then StepSent (i + 1) (name target_agent)
          else StepFailed (i + 1) (response_message resp)
      | Inl e \<Rightarrow> StepError (i + 1) e)"

text \<open>
  Two conditions on the step at index \<open>i\<close>, for the proofs: encoding its message
  raises (an agent of its type is connected and the encoder raises), and its send is
  acknowledged with success.
\<close>

definition encoding_raises :: "externals \<Rightarrow> orchestrator \<Rightarrow> nat \<Rightarrow> py \<Rightarrow> bool" where
  "encoding_raises ext self i step =
     (case first_agent self (field step ''agent_type'') of
        None \<Rightarrow> False
      | Some target_agent \<Rightarrow> isl (json_dumps ext (task_message i step) None))"

definition acknowledged :: "externals \<Rightarrow> orchestrator \<Rightarrow> nat \<Rightarrow> py \<Rightarrow> bool" where
  "acknowledged ext self i step =
     (case first_agent self (field step ''agent_type'') of
        None \<Rightarrow> False
      | Some target_agent \<Rightarrow>
          (case json_dumps ext (task_message i step) None of
             Inl e \<Rightarrow> False
           | Inr text \<Rightarrow>
               (case SendMessageToAgent ext (request_to target_agent text) of
                  Inr resp \<Rightarrow> success resp
                | Inl e \<Rightarrow> False)))"

text \<open>
  The dependencies of a step, and the lines logged for those of a list of dependencies
  that are strings and no key of \<^verbatim>\<open>completed_steps\<close>.
\<close>

abbreviation step_dependencies :: "py \<Rightarrow> py list" where
  "step_dependencies step \<equiv> (case field step ''depends_on'' of PyList ds \<Rightarrow> ds | _ \<Rightarrow> [])"

abbreviation dependency_lines :: "(string \<rightharpoonup> bool) \<Rightarrow> py list \<Rightarrow> log_entry list" where
  "dependency_lines completed deps \<equiv>
     map DependencyNotCompleted
       (filter (\<lambda>dep. case dep of PyStr s \<Rightarrow> completed s = None | _ \<Rightarrow> False) deps)"

text \<open>
  The outcome line of a step whose message is encoded without an exception, for the
  proofs.
\<close>

definition outcome_line :: "externals \<Rightarrow> orchestrator \<Rightarrow> nat \<Rightarrow> py \<Rightarrow> log_entry" where
  "outcome_line ext self i step =
     (case first_agent self (field step ''agent_type'') of
        None \<Rightarrow> NoAgentAvailable (field step ''agent_type'')
      | Some target_agent \<Rightarrow>
          (case json_dumps ext (task_message i step) None of
             Inr text \<Rightarrow>
               answer_line i target_agent (SendMessageToAgent ext (request_to target_agent text))
           | Inl e \<Rightarrow> NoAgentAvailable (field step ''agent_type'')))"

text \<open>The requests of a step: one when an agent is found and the message is encoded.\<close>

definition step_requests ::
  "externals \<Rightarrow> orchestrator \<Rightarrow> nat \<Rightarrow> py \<Rightarrow> send_message_request list" where
  "step_requests ext self i step =
     (case first_agent self (field step ''agent_type'') of
        None \<Rightarrow> []
      | Some target_agent \<Rightarrow>
          (case json_dumps ext (task_message i step) None of
             Inr text \<Rightarrow> [request_to target_agent text]
           | Inl e \<Rightarrow> []))"

text \<open>Reading a decimal numeral back, to show that step identifiers are distinct.\<close>

definition digit_val :: "char \<Rightarrow> nat" where
  "digit_val c =
     (case map_of (zip ''0123456789'' [0, 1, 2, 3, 4, 5, 6, 7, 8, 9]) c of
        Some d \<Rightarrow> d
      | None \<Rightarrow> 0)"

definition nat_of_str :: "string \<Rightarrow> nat" where
  "nat_of_str s = foldl (\<lambda>acc c. acc * 10 + digit_val c) 0 s"

section \<open>The data model as predicates on Python values\<close>

text \<open>
  A Step is a dictionary with the four keys of the schema that the prompt of
  \<^verbatim>\<open>_analyze_with_llm\<close> spells out: \<^verbatim>\<open>agent_type\<close> and \<^verbatim>\<open>action\<close> are
  strings, \<^verbatim>\<open>parameters\<close> is a dictionary, \<^verbatim>\<open>depends_on\<close> is a list of step
  identifiers. A Plan is a dictionary with an \<^verbatim>\<open>intent\<close>, a \<^verbatim>\<open>complexity\<close> out
  of three, and a \<^verbatim>\<open>workflow\<close> that is a list of Steps.
\<close>

fun is_str :: "py \<Rightarrow> bool" where
  "is_str (PyStr s) = True"
| "is_str _ = False"

fun is_dict :: "py \<Rightarrow> bool" where
  "is_dict (PyDict d) = True"
| "is_dict _ = False"

fun is_str_list :: "py \<Rightarrow> bool" where
  "is_str_list (PyList xs) = list_all is_str xs"
| "is_str_list _ = False"

definition has_key :: "py_dict \<Rightarrow> string \<Rightarrow> (py \<Rightarrow> bool) \<Rightarrow> bool" where
  "has_key d k P = (case map_of d k of None \<Rightarrow> False | Some v \<Rightarrow> P v)"

fun is_step :: "py \<Rightarrow> bool" where
  "is_step (PyDict d) =
     (has_key d ''agent_type'' is_str \<and> has_key d ''action'' is_str \<and>
      has_key d ''parameters'' is_dict \<and> has_key d ''depends_on'' is_str_list)"
| "is_step _ = False"

fun is_step_list :: "py \<Rightarrow> bool" where
  "is_step_list (PyList steps) = list_all is_step steps"
| "is_step_list _ = False"

definition is_complexity :: "py \<Rightarrow> bool" where
  "is_complexity v = (v \<in> set [PyStr ''simple'', PyStr ''medium'', PyStr ''complex''])"

fun is_plan :: "py \<Rightarrow> bool" where
  "is_plan (PyDict d) =
     (has_key d ''intent'' is_str \<and> has_key d ''complexity'' is_complexity \<and>
      has_key d ''workflow'' is_step_list)"
| "is_plan _ = False"

section \<open>Example values\<close>

text \<open>
  An interpreter for the examples. Its encoder writes compact JSON text with the
  separators of \<^verbatim>\<open>json.dumps\<close>; the strings of the examples need no escapes beyond
  the quote and the backslash, their floats are whole numbers, and the indent, which
  only changes the layout, is ignored. The encoder and the formatting of a value raise
  a RecursionError on a value nested deeper than the recursion limit of 1000.
\<close>

primrec py_depth :: "py \<Rightarrow> nat" where
  "py_depth PyNone = 0"
| "py_depth (PyBool b) = 0"
| "py_depth (PyInt i) = 0"
| "py_depth (PyFloat x) = 0"
| "py_depth (PyStr s) = 0"
| "py_depth (PyList xs) = Suc (foldr max (map py_depth xs) 0)"
| "py_depth (PyDict d) = Suc (foldr max (map snd (map (map_prod id py_depth) d)) 0)"

definition recursion_limit :: nat where
  "recursion_limit = 1000"

fun join :: "string \<Rightarrow> string list \<Rightarrow> string" where
  "join sep [] = []"
| "join sep [x] = x"
| "join sep (x # y # ys) = x @ sep @ join sep (y # ys)"

definition quoted :: "string \<Rightarrow> string" where
  "quoted s =
     CHR 0x22
       # concat (map (\<lambda>c. if c = CHR 0x22 \<or> c = CHR 0x5C then [CHR 0x5C, c] else [c]) s)
       @ [CHR 0x22]"

primrec json_text :: "py \<Rightarrow> string" where
  "json_text PyNone = ''null''"
| "json_text (PyBool b) = (if b then ''true'' else ''false'')"
| "json_text (PyInt i) = str_int i"
| "json_text (PyFloat x) = str_int \<lfloor>x\<rfloor> @ ''.0''"
| "json_text (PyStr s) = quoted s"
| "json_text (PyList xs) = ''['' @ join '', '' (map json_text xs) @ '']''"
| "json_text (PyDict d) =
     ''{'' @ join '', '' (map (\<lambda>(k, t). quoted k @ '': '' @ t) (map (map_prod id json_text) d))
       @ ''}''"

definition dumps :: "py \<Rightarrow> nat option \<Rightarrow> py_exception + string" where
  "dumps v indent = (if recursion_limit < py_depth v then Inl RecursionError else Inr (json_text v))"

definition too_deep :: "py \<Rightarrow> py_exception option" where
  "too_deep v = (if recursion_limit < py_depth v then Some RecursionError else None)"

text \<open>A reasoning service that is down: every call runs into a timeout.\<close>

definition oracle_down :: "system_prompt \<Rightarrow> string \<Rightarrow> py_exception + string list" where
  "oracle_down prompt user_prompt = Inl (OtherException ''timeout'')"


text \<open>
  A small studio: two agents, a running session, a service that accepts messages for
  the drummer only, a reasoning service that is down.
\<close>

definition tidy :: agent_info where
  "tidy = \<lparr>agent_id = ''agent-1'', name = ''Tidy'', type = ''utility'',
            capabilities = [''cleanup'']\<rparr>"

definition drummer :: agent_info where
  "drummer = \<lparr>agent_id = ''agent-2'', name = ''Drummer'', type = ''percussion'',
               capabilities = [''drums'']\<rparr>"

definition studio :: externals where
  "studio =
     \<lparr>GetConnectedAgents = Inr [tidy, drummer],
      GetTransportState =
        Inr \<lparr>tempo = PyFloat 140, time_sig_num = 4, time_sig_den = 4,
             current_time = PyFloat 0, playing = False\<rparr>,
      GetTracks =
        Inr [\<lparr>track_id = PyStr ''t1'', track_name = ''Piano'', track_type = PyStr ''midi''\<rparr>],
      GetSessionInfo = Inr \<lparr>session_name = ''Demo'', sample_rate = PyInt 44100\<rparr>,
      SendMessageToAgent =
        (\<lambda>req. if target_agent_id req = ''agent-2''
               then Inr \<lparr>success = True, response_message = ''queued''\<rparr>
               else Inl (RpcError ''unavailable'')),
      acreate = oracle_down,
      json_loads = (\<lambda>s. if s = ''null'' then Inr PyNone else Inl JSONDecodeError),
      json_dumps = dumps,
      format_error = too_deep\<rparr>"

definition rules_only :: orchestrator where
  "rules_only = \<lparr>connected_agents = [], llm_available = False\<rparr>"

definition oracle_on :: orchestrator where
  "oracle_on =
     \<lparr>connected_agents = [(''agent-1'', tidy), (''agent-2'', drummer)], llm_available = True\<rparr>"


text \<open>The same studio with one failing query, and with a registry without agents.\<close>

definition studio_tracks_down :: externals where
  "studio_tracks_down = studio\<lparr>GetTracks := Inl (RpcError ''deadline exceeded'')\<rparr>"

definition studio_registry_down :: externals where
  "studio_registry_down = studio\<lparr>GetConnectedAgents := Inl (RpcError ''unavailable'')\<rparr>"

definition studio_registry_empty :: externals where
  "studio_registry_empty = studio\<lparr>GetConnectedAgents := Inr []\<rparr>"

text \<open>
  A workflow of three steps for the studio, whose directory knows no melody agent, whose
  service accepts messages for the drummer only, and whose second step depends on the
  first.
\<close>

definition demo_workflow :: "py list" where
  "demo_workflow =
     [PyDict [(''agent_type'', PyStr ''melody''), (''action'', PyStr ''generate_melody''),
              (''parameters'', PyDict [(''length_bars'', PyInt 8)]),
              (''depends_on'', PyList [])],
      PyDict [(''agent_type'', PyStr ''percussion''), (''action'', PyStr ''generate_drums''),
              (''parameters'', PyDict [(''bars'', PyInt 4)]),
              (''depends_on'', PyList [PyStr ''step_0''])],
      PyDict [(''agent_type'', PyStr ''utility''), (''action'', PyStr ''cleanup_recording''),
              (''parameters'', PyDict [(''clip_id'', PyNone)]),
              (''depends_on'', PyList [PyStr ''step_1''])]]"

text \<open>The state in which the second step of this workflow is reached in the studio.\<close>

definition demo_reached :: dispatch_state where
  "demo_reached =
     \<lparr>completed_steps = Map.empty,
      logged =
        [ExecutingWorkflow 3,
         StepLine 1 (PyStr ''generate_melody'') (PyStr ''melody''),
         NoAgentAvailable (PyStr ''melody'')],
      sent = []\<rparr>"

text \<open>
  A value nested 1001 lists deep, parameters and a snapshot that hold it, and workflows
  with a step for the drummer that has these parameters.
\<close>

definition deep_value :: py where
  "deep_value = ((\<lambda>v. PyList [v]) ^^ 1001) PyNone"

definition deep_step :: py where
  "deep_step =
     PyDict [(''agent_type'', PyStr ''percussion''), (''action'', PyStr ''generate_drums''),
             (''parameters'', PyDict [(''pattern'', deep_value)]),
             (''depends_on'', PyList [])]"


definition deep_workflow :: "py list" where
  "deep_workflow =
     [deep_step,
      PyDict [(''agent_type'', PyStr ''utility''), (''action'', PyStr ''cleanup_recording''),
              (''parameters'', PyDict [(''clip_id'', PyNone)]),
              (''depends_on'', PyList [])]]"

definition melody_then_deep_workflow :: "py list" where
  "melody_then_deep_workflow =
     [PyDict [(''agent_type'', PyStr ''melody''), (''action'', PyStr ''generate_melody''),
              (''parameters'', PyDict [(''length_bars'', PyInt 8)]),
              (''depends_on'', PyList [])],
      deep_step,
      PyDict [(''agent_type'', PyStr ''percussion''), (''action'', PyStr ''generate_drums''),
              (''parameters'', PyDict [(''bars'', PyInt 4)]),
              (''depends_on'', PyList [])]]"

section \<open>Properties of the keyword rules\<close>


lemma is_plan_workflow:
  assumes "is_plan plan"
  obtains steps where "py_getitem plan ''workflow'' = Inr (PyList steps)"
    and "list_all is_step steps"
proof -
  from assms obtain d where d: "plan = PyDict d" by (cases plan) auto
  with assms obtain w where w: "map_of d ''workflow'' = Some w" "is_step_list w"
    by (auto simp: has_key_def split: option.splits)
  then obtain steps where "w = PyList steps" "list_all is_step steps" by (cases w) auto
  with d w that show ?thesis by simp
qed

lemma drum_prompt_lower:
  "lower ''Generate a rock drum pattern'' = ''generate a rock drum pattern''"
  by (simp add: lower_def lower_char_def)

lemma drum_prompt_rules:
  "\<not> any_word_in cleanup_words ''generate a rock drum pattern''"
  "\<not> any_word_in melody_words ''generate a rock drum pattern''"
  "any_word_in drum_words ''generate a rock drum pattern''"
  by (simp_all add: any_word_in_def cleanup_words_def melody_words_def drum_words_def)

lemma drum_prompt_plan:
  "analyze_with_patterns ''Generate a rock drum pattern'' ctx =
     PyDict [
       (''intent'', PyStr ''Generate drum pattern''),
       (''complexity'', PyStr ''medium''),
       (''workflow'', PyList [PyDict [
          (''agent_type'', PyStr ''percussion''),
          (''action'', PyStr ''generate_drums''),
          (''parameters'', PyDict [
             (''style'', PyStr ''detect from prompt''),
             (''tempo'', dict_get ctx ''tempo'' (PyInt 120)),
             (''bars'', PyInt 4)]),
          (''depends_on'', PyList [])]])]"
  unfolding analyze_with_patterns_def Let_def drum_prompt_lower
  by (simp only: drum_prompt_rules if_True if_False)

text \<open>
  C8. For the request "Generate a rock drum pattern", the keyword rules return a Plan
  with exactly one step, for the agent type "percussion", with the action
  "generate_drums"; its parameters hold the tempo of the snapshot when that is 140
  (as an integer or as a float) and bars 4; when the snapshot has no tempo, the tempo
  parameter is 120.
\<close>

theorem drum_request_one_percussion_step:
  "(let plan = analyze_with_patterns ''Generate a rock drum pattern'' snapshot;
        step = (\<lambda>t. PyDict [
          (''agent_type'', PyStr ''percussion''),
          (''action'', PyStr ''generate_drums''),
          (''parameters'', PyDict [
             (''style'', PyStr ''detect from prompt''),
             (''tempo'', t),
             (''bars'', PyInt 4)]),
          (''depends_on'', PyList [])])
    in (map_of snapshot ''tempo'' = Some (PyInt 140)
            \<longrightarrow> py_getitem plan ''workflow'' = Inr (PyList [step (PyInt 140)]))
       \<and> (map_of snapshot ''tempo'' = Some (PyFloat 140)
            \<longrightarrow> py_getitem plan ''workflow'' = Inr (PyList [step (PyFloat 140)]))
       \<and> (map_of snapshot ''tempo'' = None
            \<longrightarrow> py_getitem plan ''workflow'' = Inr (PyList [step (PyInt 120)])))"
  unfolding Let_def drum_prompt_plan
  by (simp add: dict_get_def)

theorem drum_request_one_percussion_step_witness:
  "map_of [(''tempo'', PyFloat 140), (''playing'', PyBool False)] ''tempo'' = Some (PyFloat 140)
   \<and> py_getitem
       (analyze_with_patterns ''Generate a rock drum pattern''
          [(''tempo'', PyFloat 140), (''playing'', PyBool False)]) ''workflow''
     = Inr (PyList [PyDict [
          (''agent_type'', PyStr ''percussion''),
          (''action'', PyStr ''generate_drums''),
          (''parameters'', PyDict [
             (''style'', PyStr ''detect from prompt''),
             (''tempo'', PyFloat 140),
             (''bars'', PyInt 4)]),
          (''depends_on'', PyList [])]])
   \<and> map_of ([] :: py_dict) ''tempo'' = None
   \<and> py_getitem (analyze_with_patterns ''Generate a rock drum pattern'' []) ''workflow''
     = Inr (PyList [PyDict [
          (''agent_type'', PyStr ''percussion''),
          (''action'', PyStr ''generate_drums''),
          (''parameters'', PyDict [
             (''style'', PyStr ''detect from prompt''),
             (''tempo'', PyInt 120),
             (''bars'', PyInt 4)]),
          (''depends_on'', PyList [])]])"
  using drum_request_one_percussion_step
          [of "[(''tempo'', PyFloat 140), (''playing'', PyBool False)]"]
        drum_request_one_percussion_step [of "[]"]
  by simp

text \<open>
  C7. With the reasoning service disabled, a request in which no keyword of the three
  rules occurs is answered by a Plan whose step list is empty and whose complexity is
  "complex".
\<close>

theorem no_rule_matches_empty_complex_plan:
  assumes "\<not> llm_available self"
    and "\<not> any_word_in cleanup_words (lower request)"
    and "\<not> any_word_in melody_words (lower request)"
    and "\<not> any_word_in drum_words (lower request)"
  shows "\<exists>plan. fst (analyze_user_intent ext self request snapshot) = Inr plan
           \<and> py_getitem plan ''workflow'' = Inr (PyList [])
           \<and> py_getitem plan ''complexity'' = Inr (PyStr ''complex'')
           \<and> is_plan plan"
  using assms
  by (simp add: analyze_user_intent_def analyze_with_patterns_def Let_def has_key_def
      is_complexity_def)

theorem no_rule_matches_empty_complex_plan_witness:
  "\<not> llm_available rules_only
   \<and> \<not> any_word_in cleanup_words (lower ''Make it louder'')
   \<and> \<not> any_word_in melody_words (lower ''Make it louder'')
   \<and> \<not> any_word_in drum_words (lower ''Make it louder'')
   \<and> (\<exists>plan. fst (analyze_user_intent studio rules_only ''Make it louder'' []) = Inr plan
         \<and> py_getitem plan ''workflow'' = Inr (PyList [])
         \<and> py_getitem plan ''complexity'' = Inr (PyStr ''complex'')
         \<and> is_plan plan)"
proof -
  have low: "lower ''Make it louder'' = ''make it louder''"
    by (simp add: lower_def lower_char_def)
  have a: "\<not> llm_available rules_only"
    by (simp add: rules_only_def)
  have b: "\<not> any_word_in cleanup_words (lower ''Make it louder'')"
    unfolding low by (simp add: any_word_in_def cleanup_words_def)
  have c: "\<not> any_word_in melody_words (lower ''Make it louder'')"
    unfolding low by (simp add: any_word_in_def melody_words_def)
  have d: "\<not> any_word_in drum_words (lower ''Make it louder'')"
    unfolding low by (simp add: any_word_in_def drum_words_def)
  from no_rule_matches_empty_complex_plan [OF a b c d, of studio "[]"] a b c d
  show ?thesis by blast
qed

section \<open>Step identifiers are distinct\<close>

lemma digit_val_digit_char: "d < 10 \<Longrightarrow> digit_val (digit_char d) = d"
proof -
  assume "d < 10"
  then consider "d = 0" | "d = 1" | "d = 2" | "d = 3" | "d = 4" | "d = 5" | "d = 6"
    | "d = 7" | "d = 8" | "d = 9"
    by atomize_elim arith
  then show ?thesis
    by cases (simp_all add: digit_char_def digit_val_def)
qed

lemma nat_of_str_str_nat: "nat_of_str (str_nat n) = n"
proof (induction n rule: str_nat.induct)
  case (1 n)
  show ?case
  proof (cases "n < 10")
    case True
    then show ?thesis
      by (subst str_nat.simps) (simp add: nat_of_str_def digit_val_digit_char)
  next
    case False
    with 1 have "nat_of_str (str_nat (n div 10)) = n div 10" by simp
    with False show ?thesis
      by (subst str_nat.simps) (simp add: nat_of_str_def digit_val_digit_char)
  qed
qed

lemma str_nat_inject: "str_nat m = str_nat n \<Longrightarrow> m = n"
  by (metis nat_of_str_str_nat)

lemma step_id_inject: "step_id i = step_id j \<longleftrightarrow> i = j"
  by (auto simp: step_id_def dest: str_nat_inject)

section \<open>One well-formed step\<close>

lemma list_all_is_str: "list_all is_str xs \<Longrightarrow> \<exists>ds. xs = map PyStr ds"
proof (induction xs)
  case Nil
  then show ?case by simp
next
  case (Cons x xs)
  then obtain ds where "xs = map PyStr ds" by auto
  moreover from Cons.prems obtain s where "x = PyStr s" by (cases x) auto
  ultimately have "x # xs = map PyStr (s # ds)" by simp
  then show ?case by (rule exI)
qed

lemma is_step_fields:
  assumes "is_step step"
  obtains d a t p ds where "step = PyDict d"
    and "map_of d ''action'' = Some (PyStr a)"
    and "map_of d ''agent_type'' = Some (PyStr t)"
    and "map_of d ''parameters'' = Some (PyDict p)"
    and "map_of d ''depends_on'' = Some (PyList (map PyStr ds))"
proof -
  from assms obtain d where d: "step = PyDict d" by (cases step) auto
  from assms d obtain va where va: "map_of d ''action'' = Some va" "is_str va"
    by (auto simp: has_key_def split: option.splits)
  from assms d obtain vt where vt: "map_of d ''agent_type'' = Some vt" "is_str vt"
    by (auto simp: has_key_def split: option.splits)
  from assms d obtain vp where vp: "map_of d ''parameters'' = Some vp" "is_dict vp"
    by (auto simp: has_key_def split: option.splits)
  from assms d obtain vd where vd: "map_of d ''depends_on'' = Some vd" "is_str_list vd"
    by (auto simp: has_key_def split: option.splits)
  from va obtain a where "va = PyStr a" by (cases va) auto
  moreover from vt obtain t where "vt = PyStr t" by (cases vt) auto
  moreover from vp obtain p where "vp = PyDict p" by (cases vp) auto
  moreover from vd obtain xs where xs: "vd = PyList xs" "list_all is_str xs" by (cases vd) auto
  moreover from xs list_all_is_str obtain ds where "xs = map PyStr ds" by blast
  ultimately show ?thesis using that d va vt vp vd by blast
qed

text \<open>The loop that looks for the agent finds the first agent of the type.\<close>

lemma find_agent_first: "find_agent agents t = List.find (\<lambda>agent. PyStr (type agent) = t) (map snd agents)"
  by (induction agents t rule: find_agent.induct) simp_all

lemma check_dependencies_strs:
  "check_dependencies ext (map PyStr ds) st =
     (None, st\<lparr>logged := logged st @ dependency_lines (completed_steps st) (map PyStr ds)\<rparr>)"
proof (induction ds arbitrary: st)
  case Nil
  then show ?case by simp
next
  case (Cons s ds)
  show ?case
  proof (cases "completed_steps st s")
    case None
    then show ?thesis using Cons.IH [of "log_line (DependencyNotCompleted (PyStr s)) st"]
      by (simp add: log_line_def)
  next
    case (Some b)
    then show ?thesis using Cons.IH [of st] by simp
  qed
qed

text \<open>
  What one pass of the loop does for a well-formed step, in every state: it logs the
  "Step" line and a line for each dependency that is no key of
  \<^verbatim>\<open>completed_steps\<close>; then, without a connected agent of the step's type, it logs
  that and ends; with one, it encodes the message, and an exception of the encoder
  leaves the method; otherwise it sends the text to the first agent of the type, logs
  the outcome line for the answer, and enters the step identifier in
  \<^verbatim>\<open>completed_steps\<close> when the answer is a success.
\<close>

lemma execute_step_wf:
  assumes "is_step step"
  shows "execute_step ext self i step st =
    (let lines = StepLine (i + 1) (field step ''action'') (field step ''agent_type'')
           # dependency_lines (completed_steps st) (step_dependencies step)
     in case first_agent self (field step ''agent_type'') of
          None \<Rightarrow>
            (None,
             st\<lparr>logged := logged st @ lines @ [NoAgentAvailable (field step ''agent_type'')]\<rparr>)
        | Some target_agent \<Rightarrow>
            (case json_dumps ext (task_message i step) None of
               Inl e \<Rightarrow> (Some e, st\<lparr>logged := logged st @ lines\<rparr>)
             | Inr text \<Rightarrow>
                 (None,
                  \<lparr>completed_steps =
                     (case SendMessageToAgent ext (request_to target_agent text) of
                        Inr resp \<Rightarrow>
                          if success resp
                          then (completed_steps st)(''step_'' @ str_nat i \<mapsto> True)
                          else completed_steps st
                      | Inl e \<Rightarrow> completed_steps st),
                   logged = logged st @ lines
                     @ [answer_line i target_agent
                          (SendMessageToAgent ext (request_to target_agent text))],
                   sent = sent st @ [request_to target_agent text]\<rparr>)))"
proof -
  from assms obtain d a t p ds where step: "step = PyDict d"
    and a: "map_of d ''action'' = Some (PyStr a)"
    and t: "map_of d ''agent_type'' = Some (PyStr t)"
    and p: "map_of d ''parameters'' = Some (PyDict p)"
    and ds: "map_of d ''depends_on'' = Some (PyList (map PyStr ds))"
    by (rule is_step_fields)
  have f: "field (PyDict d) ''action'' = PyStr a" "field (PyDict d) ''agent_type'' = PyStr t"
    "field (PyDict d) ''parameters'' = PyDict p"
    "field (PyDict d) ''depends_on'' = PyList (map PyStr ds)"
    using a t p ds by (simp_all add: field_def)
  obtain c l s where st: "st = \<lparr>completed_steps = c, logged = l, sent = s\<rparr>"
    by (cases st) simp
  have vals: "step_line_values ext (PyDict d) = Inr (PyStr a, PyStr t)"
    using a t by (simp add: step_line_values_def)
  let ?st1 = "\<lparr>completed_steps = c, logged = l @ [StepLine (i + 1) (PyStr a) (PyStr t)],
    sent = s\<rparr>"
  have dep: "dependency_check ext (PyDict d) ?st1 =
      (None, \<lparr>completed_steps = c,
         logged = l @ StepLine (i + 1) (PyStr a) (PyStr t)
           # dependency_lines c (map PyStr ds), sent = s\<rparr>)"
  proof (cases ds)
    case Nil
    then show ?thesis using ds
      by (simp add: dependency_check_def dict_get_def)
  next
    case (Cons x xs)
    then have "py_truthy (PyList (map PyStr ds))" by simp
    then show ?thesis using ds check_dependencies_strs [of ext ds ?st1]
      by (simp add: dependency_check_def dict_get_def)
  qed
  show ?thesis
    unfolding execute_step_def step st f Let_def vals
    using p dep
    by (auto simp: resolve_and_send_def send_task_def log_line_def Let_def message_dict_def
        step_id_def find_agent_first
        split: option.splits sum.splits)
qed

section \<open>The loop\<close>

lemma execute_steps_append:
  "execute_steps ext self (xs @ ys) st =
     (case execute_steps ext self xs st of
        (Some e, st') \<Rightarrow> (Some e, st')
      | (None, st') \<Rightarrow> execute_steps ext self ys st')"
  by (induction xs arbitrary: st) (auto split: prod.splits option.splits)

lemma outcome_report_from_append:
  "outcome_report_from cur (xs @ ys) =
     outcome_report_from cur xs @ outcome_report_from (current_step cur xs) ys"
  by (induction cur xs rule: outcome_report_from.induct) simp_all

lemma outcome_report_from_dependencies:
  "outcome_report_from n (map DependencyNotCompleted ds @ es) = outcome_report_from n es"
  by (induction ds) simp_all

lemma outcome_report_from_single:
  "is_outcome e \<Longrightarrow> outcome_report_from n [e] = [(n, e)]"
  by (cases e) simp_all

lemma outcome_report_from_step:
  "is_outcome e \<Longrightarrow>
   outcome_report_from cur (StepLine n a t # map DependencyNotCompleted ds @ [e]) = [(n, e)]"
  by (simp add: outcome_report_from_dependencies outcome_report_from_single)

lemma is_outcome_outcome_line: "is_outcome (outcome_line ext self i step)"
  by (simp add: outcome_line_def split: option.splits sum.splits)

text \<open>A step whose message is encoded, or that has no agent: the pass ends normally.\<close>

lemma execute_step_encoded:
  assumes "is_step step" and "\<not> encoding_raises ext self i step"
  shows "execute_step ext self i step st =
    (None,
     \<lparr>completed_steps =
        (if acknowledged ext self i step then (completed_steps st)(step_id i \<mapsto> True)
         else completed_steps st),
      logged = logged st
        @ StepLine (i + 1) (field step ''action'') (field step ''agent_type'')
        # dependency_lines (completed_steps st) (step_dependencies step)
        @ [outcome_line ext self i step],
      sent = sent st @ step_requests ext self i step\<rparr>)"
proof -
  obtain c l s where st: "st = \<lparr>completed_steps = c, logged = l, sent = s\<rparr>"
    by (cases st) simp
  show ?thesis
    unfolding execute_step_wf [OF assms(1)] st
    using assms(2)
    by (auto simp: Let_def encoding_raises_def acknowledged_def outcome_line_def
        step_requests_def step_id_def split: option.splits sum.splits)
qed

text \<open>A step whose message the encoder rejects: the exception leaves the loop.\<close>

lemma execute_step_raises:
  assumes "is_step step" and "encoding_raises ext self i step"
  obtains e st' where "execute_step ext self i step st = (Some e, st')"
    and "completed_steps st' = completed_steps st" and "sent st' = sent st"
proof -
  from assms(2) obtain target_agent e
    where "first_agent self (field step ''agent_type'') = Some target_agent"
      and "json_dumps ext (task_message i step) None = Inl e"
    by (auto simp: encoding_raises_def isl_def split: option.splits)
  then have "execute_step ext self i step st =
      (Some e, st\<lparr>logged := logged st
         @ StepLine (i + 1) (field step ''action'') (field step ''agent_type'')
         # dependency_lines (completed_steps st) (step_dependencies step)\<rparr>)"
    unfolding execute_step_wf [OF assms(1)] by (simp add: Let_def)
  then show ?thesis
    by (rule that) simp_all
qed

lemma acknowledged_not_raises: "acknowledged ext self i step \<Longrightarrow> \<not> encoding_raises ext self i step"
  by (auto simp: acknowledged_def encoding_raises_def split: option.splits sum.splits)

lemma execute_steps_no_exception:
  "list_all (\<lambda>(i, step). is_step step \<and> \<not> encoding_raises ext self i step) steps \<Longrightarrow>
   fst (execute_steps ext self steps st) = None"
proof (induction steps arbitrary: st)
  case Nil
  then show ?case by simp
next
  case (Cons x steps)
  obtain i step where x: "x = (i, step)" by (cases x)
  with Cons.prems have "is_step step" "\<not> encoding_raises ext self i step" by simp_all
  from execute_step_encoded [OF this, of st] Cons x show ?case by simp
qed

lemma execute_steps_sent:
  "list_all (\<lambda>(i, step). is_step step \<and> \<not> encoding_raises ext self i step) steps \<Longrightarrow>
   sent (snd (execute_steps ext self steps st)) =
     sent st @ concat (map (\<lambda>(i, step). step_requests ext self i step) steps)"
proof (induction steps arbitrary: st)
  case Nil
  then show ?case by simp
next
  case (Cons x steps)
  obtain i step where x: "x = (i, step)" by (cases x)
  with Cons.prems have "is_step step" "\<not> encoding_raises ext self i step" by simp_all
  from execute_step_encoded [OF this, of st] Cons x show ?case by simp
qed

lemma execute_steps_report:
  "list_all (\<lambda>(i, step). is_step step \<and> \<not> encoding_raises ext self i step) steps \<Longrightarrow>
   outcome_report_from cur (logged (snd (execute_steps ext self steps st))) =
     outcome_report_from cur (logged st)
       @ map (\<lambda>(i, step). (i + 1, outcome_line ext self i step)) steps"
proof (induction steps arbitrary: st)
  case Nil
  then show ?case by simp
next
  case (Cons x steps)
  obtain i step where x: "x = (i, step)" by (cases x)
  with Cons.prems have wf: "is_step step" "\<not> encoding_raises ext self i step"
    "list_all (\<lambda>(i, step). is_step step \<and> \<not> encoding_raises ext self i step) steps"
    by simp_all
  obtain st' where st': "execute_step ext self i step st = (None, st')"
    and lg: "logged st' = logged st
        @ (StepLine (i + 1) (field step ''action'') (field step ''agent_type'')
        # dependency_lines (completed_steps st) (step_dependencies step)
        @ [outcome_line ext self i step])"
    using execute_step_encoded [OF wf(1,2), of st] by simp
  have "outcome_report_from cur (logged st') =
      outcome_report_from cur (logged st) @ [(i + 1, outcome_line ext self i step)]"
    unfolding lg outcome_report_from_append
    by (simp only: outcome_report_from_step [OF is_outcome_outcome_line])
  with Cons.IH [OF wf(3), of st'] st' x show ?case by simp
qed

text \<open>
  The keys of \<^verbatim>\<open>completed_steps\<close> after the loop, also when an exception has left
  it: the steps that were reached, no earlier step having made the encoder raise, and
  whose send was acknowledged with success.
\<close>

lemma execute_steps_completed:
  "list_all is_step workflow \<Longrightarrow>
   completed_steps (snd (execute_steps ext self (enumerate n workflow) st)) key =
     (if \<exists>i < length workflow. key = step_id (n + i)
           \<and> (\<forall>j < i. \<not> encoding_raises ext self (n + j) (workflow ! j))
           \<and> acknowledged ext self (n + i) (workflow ! i)
      then Some True else completed_steps st key)"
proof (induction workflow arbitrary: n st)
  case Nil
  then show ?case by simp
next
  case (Cons step workflow)
  then have wf: "is_step step" "list_all is_step workflow" by simp_all
  show ?case
  proof (cases "encoding_raises ext self n step")
    case True
    from wf(1) True obtain e st' where "execute_step ext self n step st = (Some e, st')"
      and "completed_steps st' = completed_steps st"
      by (rule execute_step_raises)
    moreover from True have "\<not> acknowledged ext self n step"
      using acknowledged_not_raises by blast
    ultimately show ?thesis
      using True by (auto simp: Ex_less_Suc2 All_less_Suc2)
  next
    case False
    note run = execute_step_encoded [OF wf(1) False, of st]
    show ?thesis
      unfolding enumerate_simps execute_steps.simps run prod.case option.case snd_conv
        Cons.IH [OF wf(2)]
      using False
      by (auto simp: Ex_less_Suc2 All_less_Suc2 step_id_inject)
  qed
qed

lemma enumerate_encoded:
  assumes "list_all is_step workflow"
    and "\<forall>i < length workflow. \<not> encoding_raises ext self i (workflow ! i)"
  shows "list_all (\<lambda>(i, step). is_step step \<and> \<not> encoding_raises ext self i step)
           (enumerate 0 workflow)"
  using assms by (auto simp: list_all_iff in_set_enumerate_eq list_all_length)

lemma encoded_not_raises:
  assumes "\<forall>target_agent. first_agent self (field step ''agent_type'') = Some target_agent
     \<longrightarrow> (\<exists>text. json_dumps ext (task_message i step) None = Inr text)"
  shows "\<not> encoding_raises ext self i step"
  using assms by (auto simp: encoding_raises_def split: option.splits)

section \<open>Properties of the Agent Directory\<close>

text \<open>
  C6, as the code has it. When the registry query of a refresh raises, the orchestrator
  is left as it was, so the stored agent mapping is the one from before the refresh,
  whatever it was, and is not cleared; the failure is logged, and the caller is handed
  the empty sequence.
\<close>

theorem failed_refresh_keeps_directory:
  assumes "GetConnectedAgents ext = Inl e"
  shows "(case get_connected_agents ext self of
            (returned, self', lines) \<Rightarrow>
              self' = self
              \<and> connected_agents self' = connected_agents self
              \<and> returned = []
              \<and> lines = [FailedToGetAgents e])"
  using assms by (simp add: get_connected_agents_def)

theorem failed_refresh_keeps_directory_witness:
  "GetConnectedAgents studio_registry_down = Inl (RpcError ''unavailable'')
   \<and> get_connected_agents studio_registry_down oracle_on
       = ([], oracle_on, [FailedToGetAgents (RpcError ''unavailable'')])
   \<and> connected_agents (fst (snd (get_connected_agents studio_registry_down oracle_on)))
       = [(''agent-1'', tidy), (''agent-2'', drummer)]"
proof -
  have h: "GetConnectedAgents studio_registry_down = Inl (RpcError ''unavailable'')"
    by (simp add: studio_registry_down_def)
  from failed_refresh_keeps_directory [OF h, of oracle_on] h show ?thesis
    by (auto simp: oracle_on_def split: prod.splits)
qed

text \<open>
  C6, as the claim states it, fails in its second half: the failure is not reported to
  the caller. What the caller gets from the refresh that failed is what it gets from
  the successful refresh of a registry without agents, the empty sequence.
\<close>

theorem failed_refresh_report_counterexample:
  "GetConnectedAgents studio_registry_down = Inl (RpcError ''unavailable'')
   \<and> GetConnectedAgents studio_registry_empty = Inr []
   \<and> fst (get_connected_agents studio_registry_down oracle_on) = []
   \<and> fst (get_connected_agents studio_registry_empty oracle_on) = []
   \<and> fst (get_connected_agents studio_registry_down oracle_on)
       = fst (get_connected_agents studio_registry_empty oracle_on)"
  by (simp add: get_connected_agents_def studio_registry_down_def studio_registry_empty_def)

section \<open>Properties of the analysis with the reasoning service\<close>


lemma py_depth_nested: "py_depth (((\<lambda>v. PyList [v]) ^^ n) v) = n + py_depth v"
  by (induction n) simp_all

lemma py_depth_deep_value: "py_depth deep_value = 1001"
  by (simp add: deep_value_def py_depth_nested)




section \<open>Properties of the Session Snapshot Reader\<close>

lemma get_session_context_keys:
  "map fst (fst (get_session_context ext)) = []
   \<or> map fst (fst (get_session_context ext)) =
       [''tempo'', ''time_signature'', ''current_time'', ''playing'', ''track_count'',
        ''tracks'', ''session_name'', ''sample_rate'']"
  by (simp add: get_session_context_def split: sum.splits)

lemma get_session_context_no_selected_clip:
  "map_of (fst (get_session_context ext)) ''selected_clip'' = None"
  by (simp add: get_session_context_def split: sum.splits)

text \<open>
  C1, as the code has it. When exactly one of the three queries raises an RpcError and
  the other two answer, \<^verbatim>\<open>get_session_context\<close> returns the empty dictionary: the
  two answers are discarded, the error is logged, nothing is raised.
\<close>

theorem one_failed_query_empties_snapshot:
  assumes "(isl (GetTransportState ext) \<and> \<not> isl (GetTracks ext) \<and> \<not> isl (GetSessionInfo ext))
     \<or> (\<not> isl (GetTransportState ext) \<and> isl (GetTracks ext) \<and> \<not> isl (GetSessionInfo ext))
     \<or> (\<not> isl (GetTransportState ext) \<and> \<not> isl (GetTracks ext) \<and> isl (GetSessionInfo ext))"
  shows "fst (get_session_context ext) = []
       \<and> (\<exists>e. snd (get_session_context ext) = [FailedToGetSessionContext e])"
  using assms by (auto simp: get_session_context_def split: sum.splits)

theorem one_failed_query_empties_snapshot_witness:
  "\<not> isl (GetTransportState studio_tracks_down)
   \<and> isl (GetTracks studio_tracks_down)
   \<and> \<not> isl (GetSessionInfo studio_tracks_down)
   \<and> fst (get_session_context studio_tracks_down) = []"
proof -
  have h: "\<not> isl (GetTransportState studio_tracks_down)
    \<and> isl (GetTracks studio_tracks_down) \<and> \<not> isl (GetSessionInfo studio_tracks_down)"
    by (simp add: studio_tracks_down_def studio_def)
  then have "(isl (GetTransportState studio_tracks_down) \<and> \<not> isl (GetTracks studio_tracks_down)
        \<and> \<not> isl (GetSessionInfo studio_tracks_down))
     \<or> (\<not> isl (GetTransportState studio_tracks_down) \<and> isl (GetTracks studio_tracks_down)
        \<and> \<not> isl (GetSessionInfo studio_tracks_down))
     \<or> (\<not> isl (GetTransportState studio_tracks_down) \<and> \<not> isl (GetTracks studio_tracks_down)
        \<and> isl (GetSessionInfo studio_tracks_down))"
    by blast
  from one_failed_query_empties_snapshot [OF this] h show ?thesis by blast
qed

text \<open>
  C1, as the claim states it, fails: in the studio whose track query raises while the
  transport and session queries answer, the snapshot holds neither the tempo of the
  transport answer nor the name of the session answer.
\<close>

theorem partial_snapshot_counterexample:
  "GetTransportState studio_tracks_down
     = Inr \<lparr>tempo = PyFloat 140, time_sig_num = 4, time_sig_den = 4,
            current_time = PyFloat 0, playing = False\<rparr>
   \<and> GetTracks studio_tracks_down = Inl (RpcError ''deadline exceeded'')
   \<and> GetSessionInfo studio_tracks_down
     = Inr \<lparr>session_name = ''Demo'', sample_rate = PyInt 44100\<rparr>
   \<and> get_session_context studio_tracks_down
     = ([], [FailedToGetSessionContext (RpcError ''deadline exceeded'')])
   \<and> map_of (fst (get_session_context studio_tracks_down)) ''tempo'' \<noteq> Some (PyFloat 140)
   \<and> map_of (fst (get_session_context studio_tracks_down)) ''session_name''
       \<noteq> Some (PyStr ''Demo'')"
  by (simp add: get_session_context_def studio_tracks_down_def studio_def)

section \<open>The cleanup rule on a snapshot of the reader\<close>

text \<open>
  C10. A session context that \<^verbatim>\<open>get_session_context\<close> produced has either no key
  or the eight keys tempo, time_signature, current_time, playing, track_count, tracks,
  session_name, sample_rate; \<^verbatim>\<open>selected_clip\<close> is not among them, so the step of the
  cleanup rule has the parameters \<^verbatim>\<open>{"clip_id": None}\<close>.
\<close>

theorem cleanup_step_has_no_clip:
  assumes "any_word_in cleanup_words (lower request)"
  shows "(map fst (fst (get_session_context ext))
            \<in> {[], [''tempo'', ''time_signature'', ''current_time'', ''playing'',
                    ''track_count'', ''tracks'', ''session_name'', ''sample_rate'']})
       \<and> py_getitem (analyze_with_patterns request (fst (get_session_context ext))) ''workflow''
           = Inr (PyList [PyDict [
                (''agent_type'', PyStr ''utility''),
                (''action'', PyStr ''cleanup_recording''),
                (''parameters'', PyDict [(''clip_id'', PyNone)]),
                (''depends_on'', PyList [])]])"
  using assms get_session_context_keys [of ext] get_session_context_no_selected_clip [of ext]
  by (simp add: analyze_with_patterns_def Let_def dict_get_def)

theorem cleanup_step_has_no_clip_witness:
  "any_word_in cleanup_words (lower ''Clean up the piano recording'')
   \<and> py_getitem
       (analyze_with_patterns ''Clean up the piano recording'' (fst (get_session_context studio)))
       ''workflow''
     = Inr (PyList [PyDict [
          (''agent_type'', PyStr ''utility''),
          (''action'', PyStr ''cleanup_recording''),
          (''parameters'', PyDict [(''clip_id'', PyNone)]),
          (''depends_on'', PyList [])]])"
proof -
  have low: "lower ''Clean up the piano recording'' = ''clean up the piano recording''"
    by (simp add: lower_def lower_char_def)
  have h: "any_word_in cleanup_words (lower ''Clean up the piano recording'')"
    unfolding low by (simp add: any_word_in_def cleanup_words_def)
  from cleanup_step_has_no_clip [OF h, of studio] h show ?thesis by blast
qed

section \<open>A whole workflow of well-formed steps\<close>

lemma encoding_raises_iff:
  "\<not> encoding_raises ext self i step \<longleftrightarrow>
     (\<forall>target_agent. first_agent self (field step ''agent_type'') = Some target_agent
        \<longrightarrow> (\<exists>text. json_dumps ext (task_message i step) None = Inr text))"
  by (cases "json_dumps ext (task_message i step) None")
    (auto simp: encoding_raises_def split: option.splits)

lemma acknowledged_iff:
  "acknowledged ext self i step \<longleftrightarrow>
     (\<exists>target_agent text resp.
        first_agent self (field step ''agent_type'') = Some target_agent
        \<and> json_dumps ext (task_message i step) None = Inr text
        \<and> SendMessageToAgent ext (request_to target_agent text) = Inr resp
        \<and> success resp)"
  by (auto simp: acknowledged_def split: option.splits sum.splits)

lemma execute_workflow_no_exception:
  assumes "list_all is_step workflow"
    and "\<forall>i < length workflow. \<not> encoding_raises ext self i (workflow ! i)"
  shows "fst (execute_workflow ext self workflow) = None"
  unfolding execute_workflow_def
  by (rule execute_steps_no_exception) (rule enumerate_encoded [OF assms])

lemma execute_workflow_report:
  assumes "list_all is_step workflow"
    and "\<forall>i < length workflow. \<not> encoding_raises ext self i (workflow ! i)"
  shows "outcome_report (logged (snd (execute_workflow ext self workflow))) =
     map (\<lambda>(i, step). (i + 1, outcome_line ext self i step)) (enumerate 0 workflow)"
  unfolding execute_workflow_def outcome_report_def
  by (simp add: execute_steps_report [OF enumerate_encoded [OF assms]] initial_state_def)

lemma execute_workflow_report_nth:
  assumes "list_all is_step workflow"
    and "\<forall>i < length workflow. \<not> encoding_raises ext self i (workflow ! i)"
    and "k < length workflow"
  shows "outcome_report (logged (snd (execute_workflow ext self workflow))) ! k =
     (k + 1, outcome_line ext self k (workflow ! k))"
  unfolding execute_workflow_report [OF assms(1,2)]
  using assms(3) by (simp add: nth_enumerate_eq)

lemma execute_workflow_report_numbers:
  assumes "list_all is_step workflow"
    and "\<forall>i < length workflow. \<not> encoding_raises ext self i (workflow ! i)"
  shows "map fst (outcome_report (logged (snd (execute_workflow ext self workflow))))
     = [1 ..< length workflow + 1]"
proof -
  have "map fst (map (\<lambda>(i, step). (i + 1, outcome_line ext self i step))
                   (enumerate 0 workflow))
        = map (Suc \<circ> fst) (enumerate 0 workflow)"
    by (simp add: case_prod_beta comp_def)
  also have "\<dots> = map Suc (map fst (enumerate 0 workflow))"
    by (simp only: map_map)
  also have "\<dots> = map Suc [0 ..< length workflow]"
    by (simp only: map_fst_enumerate add_0)
  also have "\<dots> = [1 ..< length workflow + 1]"
    by (simp add: map_Suc_upt)
  finally show ?thesis
    unfolding execute_workflow_report [OF assms] .
qed

lemma execute_workflow_sent:
  assumes "list_all is_step workflow"
    and "\<forall>i < length workflow. \<not> encoding_raises ext self i (workflow ! i)"
  shows "sent (snd (execute_workflow ext self workflow)) =
     concat (map (\<lambda>(i, step). step_requests ext self i step) (enumerate 0 workflow))"
  unfolding execute_workflow_def
  by (simp add: execute_steps_sent [OF enumerate_encoded [OF assms]] initial_state_def)

lemma execute_workflow_completed:
  assumes "list_all is_step workflow"
  shows "completed_steps (snd (execute_workflow ext self workflow)) key =
     (if \<exists>i < length workflow. key = step_id i
           \<and> (\<forall>j < i. \<not> encoding_raises ext self j (workflow ! j))
           \<and> acknowledged ext self i (workflow ! i)
      then Some True else None)"
  unfolding execute_workflow_def
  using execute_steps_completed [OF assms, of ext self 0 "initial_state workflow" key]
  by (auto simp: initial_state_def)

lemma execute_workflow_completed_step:
  assumes "list_all is_step workflow" and "i < length workflow"
  shows "completed_steps (snd (execute_workflow ext self workflow)) (step_id i) =
     (if (\<forall>j < i. \<not> encoding_raises ext self j (workflow ! j))
         \<and> acknowledged ext self i (workflow ! i)
      then Some True else None)"
  unfolding execute_workflow_completed [OF assms(1)]
  using assms(2) by (auto simp: step_id_inject)

lemma step_ids:
  "step_id 0 = ''step_0''" "step_id (Suc 0) = ''step_1''" "step_id (Suc (Suc 0)) = ''step_2''"
  by (simp_all add: step_id_def str_nat.simps digit_char_def)

lemma demo_workflow_is_step: "list_all is_step demo_workflow"
  by (simp add: demo_workflow_def has_key_def)

text \<open>The run of the demo workflow in the studio, evaluated.\<close>

lemma demo_run:
  "execute_workflow studio oracle_on demo_workflow =
     (None,
      \<lparr>completed_steps = [''step_1'' \<mapsto> True],
       logged =
         [ExecutingWorkflow 3,
          StepLine 1 (PyStr ''generate_melody'') (PyStr ''melody''),
          NoAgentAvailable (PyStr ''melody''),
          StepLine 2 (PyStr ''generate_drums'') (PyStr ''percussion''),
          DependencyNotCompleted (PyStr ''step_0''),
          StepSent 2 ''Drummer'',
          StepLine 3 (PyStr ''cleanup_recording'') (PyStr ''utility''),
          StepError 3 (RpcError ''unavailable'')],
       sent =
         [\<lparr>target_agent_id = ''agent-2'',
           message = json_text (PyDict [(''task'', PyStr ''generate_drums''),
                                        (''parameters'', PyDict [(''bars'', PyInt 4)]),
                                        (''step_id'', PyStr ''step_1'')])\<rparr>,
          \<lparr>target_agent_id = ''agent-1'',
           message = json_text (PyDict [(''task'', PyStr ''cleanup_recording''),
                                        (''parameters'', PyDict [(''clip_id'', PyNone)]),
                                        (''step_id'', PyStr ''step_2'')])\<rparr>]\<rparr>)"
proof -
  have some: "\<exists>b::bool. b" by blast
  show ?thesis
    by (simp add: execute_workflow_def initial_state_def demo_workflow_def execute_step_def
        step_line_values_def dependency_check_def resolve_and_send_def send_task_def
        message_dict_def log_line_def dict_get_def oracle_on_def tidy_def drummer_def
        studio_def dumps_def recursion_limit_def step_ids Let_def some)
qed

lemma deep_step_is_step: "is_step deep_step"
  by (simp add: deep_step_def has_key_def)

lemma deep_message_rejected:
  "json_dumps studio
     (PyDict [(''task'', PyStr ''generate_drums''),
              (''parameters'', PyDict [(''pattern'', deep_value)]),
              (''step_id'', PyStr sid)]) None = Inl RecursionError"
  by (simp add: studio_def dumps_def recursion_limit_def py_depth_deep_value)

text \<open>The runs of the two workflows with the deeply nested parameters, evaluated.\<close>

lemma deep_run:
  "execute_workflow studio oracle_on deep_workflow =
     (Some RecursionError,
      \<lparr>completed_steps = Map.empty,
       logged =
         [ExecutingWorkflow 2,
          StepLine 1 (PyStr ''generate_drums'') (PyStr ''percussion'')],
       sent = []\<rparr>)"
  using deep_message_rejected [of "''step_0''"]
  by (simp add: execute_workflow_def initial_state_def deep_workflow_def deep_step_def
      execute_step_def step_line_values_def dependency_check_def resolve_and_send_def
      message_dict_def log_line_def dict_get_def oracle_on_def tidy_def drummer_def
      step_ids Let_def)

lemma melody_then_deep_run:
  "execute_workflow studio oracle_on melody_then_deep_workflow =
     (Some RecursionError,
      \<lparr>completed_steps = Map.empty,
       logged =
         [ExecutingWorkflow 3,
          StepLine 1 (PyStr ''generate_melody'') (PyStr ''melody''),
          NoAgentAvailable (PyStr ''melody''),
          StepLine 2 (PyStr ''generate_drums'') (PyStr ''percussion'')],
       sent = []\<rparr>)"
  using deep_message_rejected [of "''step_1''"]
  by (simp add: execute_workflow_def initial_state_def melody_then_deep_workflow_def
      deep_step_def execute_step_def step_line_values_def dependency_check_def
      resolve_and_send_def message_dict_def log_line_def dict_get_def oracle_on_def tidy_def
      drummer_def step_ids Let_def)

section \<open>Properties of the Workflow Dispatcher\<close>

text \<open>
  C2, as the code has it. \<^verbatim>\<open>execute_workflow\<close> returns no value; its report is
  its log. For a Plan of well-formed steps in which the message of every step with a
  connected agent of its type is encoded by \<^verbatim>\<open>json.dumps\<close>, executing the Plan
  raises nothing, and the report read off the log has exactly one outcome for each
  step, numbered 1 to the number of steps in the order of the Plan. The outcome of the
  step at index \<open>i\<close> is its own: without a connected agent of its type the line that
  says so, otherwise the line for the answer of the service to its message, sent to the
  first agent of its type, whatever happened to the steps before it.
\<close>

theorem one_outcome_per_step_in_order:
  assumes "list_all is_step workflow"
    and "\<forall>i < length workflow. \<forall>target_agent.
           first_agent self (field (workflow ! i) ''agent_type'') = Some target_agent
           \<longrightarrow> (\<exists>text. json_dumps ext (task_message i (workflow ! i)) None = Inr text)"
  shows "(let report = outcome_report (logged (snd (execute_workflow ext self workflow))) in
       fst (execute_workflow ext self workflow) = None
       \<and> map fst report = [1 ..< length workflow + 1]
       \<and> (\<forall>i < length workflow.
            first_agent self (field (workflow ! i) ''agent_type'') = None
            \<longrightarrow> report ! i = (i + 1, NoAgentAvailable (field (workflow ! i) ''agent_type'')))
       \<and> (\<forall>i < length workflow. \<forall>target_agent text.
            first_agent self (field (workflow ! i) ''agent_type'') = Some target_agent
            \<longrightarrow> json_dumps ext (task_message i (workflow ! i)) None = Inr text
            \<longrightarrow> report ! i =
                  (i + 1,
                   answer_line i target_agent
                     (SendMessageToAgent ext (request_to target_agent text)))))"
proof -
  from assms(2) have enc: "\<forall>i < length workflow. \<not> encoding_raises ext self i (workflow ! i)"
    by (simp add: encoding_raises_iff)
  let ?report = "outcome_report (logged (snd (execute_workflow ext self workflow)))"
  have a: "fst (execute_workflow ext self workflow) = None"
    by (rule execute_workflow_no_exception [OF assms(1) enc])
  have b: "map fst ?report = [1 ..< length workflow + 1]"
    by (rule execute_workflow_report_numbers [OF assms(1) enc])
  have c: "?report ! i = (i + 1, NoAgentAvailable (field (workflow ! i) ''agent_type''))"
    if "i < length workflow"
      and "first_agent self (field (workflow ! i) ''agent_type'') = None" for i
    unfolding execute_workflow_report_nth [OF assms(1) enc that(1)]
    using that(2) by (simp add: outcome_line_def)
  have d: "?report ! i =
      (i + 1,
       answer_line i target_agent (SendMessageToAgent ext (request_to target_agent encoded)))"
    if "i < length workflow"
      and "first_agent self (field (workflow ! i) ''agent_type'') = Some target_agent"
      and "json_dumps ext (task_message i (workflow ! i)) None = Inr encoded"
    for i target_agent encoded
    unfolding execute_workflow_report_nth [OF assms(1) enc that(1)]
    using that(2,3) by (simp add: outcome_line_def)
  from a b c d show ?thesis
    unfolding Let_def by blast
qed

lemma demo_first_agents:
  "first_agent oracle_on (field (demo_workflow ! 0) ''agent_type'') = None"
  "first_agent oracle_on (field (demo_workflow ! 1) ''agent_type'') = Some drummer"
  "first_agent oracle_on (field (demo_workflow ! 2) ''agent_type'') = Some tidy"
  by (simp_all add: demo_workflow_def oracle_on_def tidy_def drummer_def field_def)

lemma demo_messages:
  "json_dumps studio (task_message 1 (demo_workflow ! 1)) None =
     Inr (json_text (PyDict [(''task'', PyStr ''generate_drums''),
                             (''parameters'', PyDict [(''bars'', PyInt 4)]),
                             (''step_id'', PyStr ''step_1'')]))"
  "json_dumps studio (task_message 2 (demo_workflow ! 2)) None =
     Inr (json_text (PyDict [(''task'', PyStr ''cleanup_recording''),
                             (''parameters'', PyDict [(''clip_id'', PyNone)]),
                             (''step_id'', PyStr ''step_2'')]))"
  by (simp_all add: demo_workflow_def field_def studio_def dumps_def recursion_limit_def
      str_nat.simps digit_char_def)

lemma demo_encoded:
  "\<forall>i < length demo_workflow. \<forall>target_agent.
     first_agent oracle_on (field (demo_workflow ! i) ''agent_type'') = Some target_agent
     \<longrightarrow> (\<exists>text. json_dumps studio (task_message i (demo_workflow ! i)) None = Inr text)"
proof (intro allI impI)
  fix i target_agent
  assume "i < length demo_workflow"
  then have "i = 0 \<or> i = 1 \<or> i = 2"
    by (auto simp: demo_workflow_def)
  moreover assume
    "first_agent oracle_on (field (demo_workflow ! i) ''agent_type'') = Some target_agent"
  ultimately show "\<exists>text. json_dumps studio (task_message i (demo_workflow ! i)) None = Inr text"
    using demo_first_agents(1) demo_messages by auto
qed

theorem one_outcome_per_step_in_order_witness:
  "list_all is_step demo_workflow
   \<and> first_agent oracle_on (field (demo_workflow ! 0) ''agent_type'') = None
   \<and> first_agent oracle_on (field (demo_workflow ! 1) ''agent_type'') = Some drummer
   \<and> first_agent oracle_on (field (demo_workflow ! 2) ''agent_type'') = Some tidy
   \<and> json_dumps studio (task_message 1 (demo_workflow ! 1)) None =
       Inr (json_text (PyDict [(''task'', PyStr ''generate_drums''),
                               (''parameters'', PyDict [(''bars'', PyInt 4)]),
                               (''step_id'', PyStr ''step_1'')]))
   \<and> json_dumps studio (task_message 2 (demo_workflow ! 2)) None =
       Inr (json_text (PyDict [(''task'', PyStr ''cleanup_recording''),
                               (''parameters'', PyDict [(''clip_id'', PyNone)]),
                               (''step_id'', PyStr ''step_2'')]))
   \<and> fst (execute_workflow studio oracle_on demo_workflow) = None
   \<and> map fst (outcome_report (logged (snd (execute_workflow studio oracle_on demo_workflow))))
       = [1, 2, 3]
   \<and> outcome_report (logged (snd (execute_workflow studio oracle_on demo_workflow)))
       = [(1, NoAgentAvailable (PyStr ''melody'')),
          (2, StepSent 2 ''Drummer''),
          (3, StepError 3 (RpcError ''unavailable''))]"
proof -
  have len: "length demo_workflow = 3"
    by (simp add: demo_workflow_def)
  have upt: "[1 ..< 3 + 1] = [1, 2, 3::nat]"
    by (simp add: upt_rec)
  have rep: "outcome_report (logged (snd (execute_workflow studio oracle_on demo_workflow)))
       = [(1, NoAgentAvailable (PyStr ''melody'')),
          (2, StepSent 2 ''Drummer''),
          (3, StepError 3 (RpcError ''unavailable''))]"
    by (simp add: demo_run outcome_report_def)
  note inst = one_outcome_per_step_in_order [OF demo_workflow_is_step demo_encoded,
      unfolded Let_def]
  from inst have none: "fst (execute_workflow studio oracle_on demo_workflow) = None"
    by (rule conjunct1)
  from inst have "map fst (outcome_report (logged (snd (execute_workflow studio oracle_on
      demo_workflow)))) = [1 ..< length demo_workflow + 1]"
    by blast
  then have numbers: "map fst (outcome_report (logged (snd (execute_workflow studio oracle_on
      demo_workflow)))) = [1, 2, 3]"
    unfolding len upt .
  from demo_workflow_is_step demo_first_agents demo_messages none numbers rep
  show ?thesis by blast
qed

text \<open>
  C2, as the claim states it, fails. It fails for a Plan whose first step, for the
  drummer, has parameters nested deeper than the encoder accepts:
  \<^verbatim>\<open>json.dumps(message)\<close> stands before the try block, the RecursionError leaves
  \<^verbatim>\<open>execute_workflow\<close>, and the log has no outcome line for either of the two
  steps.
\<close>

theorem one_outcome_per_step_counterexample:
  "list_all is_step deep_workflow
   \<and> length deep_workflow = 2
   \<and> fst (execute_workflow studio oracle_on deep_workflow) = Some RecursionError
   \<and> outcome_report (logged (snd (execute_workflow studio oracle_on deep_workflow))) = []
   \<and> sent (snd (execute_workflow studio oracle_on deep_workflow)) = []"
  by (simp add: deep_run outcome_report_def)
    (simp add: deep_workflow_def deep_step_def has_key_def)

text \<open>
  C9. After a Plan of well-formed steps has run, to its end or until an exception of
  the encoder has left it, the identifier of the step at index \<open>i\<close> is a key of
  \<^verbatim>\<open>completed_steps\<close>, with the value True, exactly when the step was reached (no
  earlier step with a connected agent had a message that the encoder rejected), an
  agent of its type was found, its message was encoded, and the send of the message to
  that agent was answered with success. Otherwise (no agent, an answer that is not a
  success, an RpcError, or no send at all) it is no key. There are no other keys, and no
  key has the value False: a failure is never recorded there.
\<close>

theorem completed_steps_iff_acknowledged:
  assumes "list_all is_step workflow"
  shows "(let final = snd (execute_workflow ext self workflow) in
       (\<forall>i < length workflow.
          completed_steps final (''step_'' @ str_nat i) =
            (if (\<forall>j < i. \<forall>target_agent.
                    first_agent self (field (workflow ! j) ''agent_type'') = Some target_agent
                    \<longrightarrow> (\<exists>text. json_dumps ext (task_message j (workflow ! j)) None = Inr text))
                \<and> (\<exists>target_agent text resp.
                      first_agent self (field (workflow ! i) ''agent_type'') = Some target_agent
                      \<and> json_dumps ext (task_message i (workflow ! i)) None = Inr text
                      \<and> SendMessageToAgent ext (request_to target_agent text) = Inr resp
                      \<and> success resp)
             then Some True else None))
       \<and> (\<forall>key. completed_steps final key \<noteq> None
              \<longrightarrow> (\<exists>i < length workflow. key = ''step_'' @ str_nat i))
       \<and> (\<forall>key. completed_steps final key \<noteq> Some False))"
proof -
  let ?final = "snd (execute_workflow ext self workflow)"
  have a: "completed_steps ?final (''step_'' @ str_nat i) =
            (if (\<forall>j < i. \<forall>target_agent.
                    first_agent self (field (workflow ! j) ''agent_type'') = Some target_agent
                    \<longrightarrow> (\<exists>text. json_dumps ext (task_message j (workflow ! j)) None = Inr text))
                \<and> (\<exists>target_agent text resp.
                      first_agent self (field (workflow ! i) ''agent_type'') = Some target_agent
                      \<and> json_dumps ext (task_message i (workflow ! i)) None = Inr text
                      \<and> SendMessageToAgent ext (request_to target_agent text) = Inr resp
                      \<and> success resp)
             then Some True else None)"
    if "i < length workflow" for i
    using execute_workflow_completed_step [OF assms that, of ext self]
    unfolding encoding_raises_iff acknowledged_iff step_id_def .
  have b: "\<exists>i < length workflow. key = ''step_'' @ str_nat i"
    if "completed_steps ?final key \<noteq> None" for key
    using that unfolding execute_workflow_completed [OF assms]
    by (auto simp: step_id_def split: if_splits)
  have c: "completed_steps ?final key \<noteq> Some False" for key
    unfolding execute_workflow_completed [OF assms] by simp
  from a b c show ?thesis
    unfolding Let_def by blast
qed

theorem completed_steps_iff_acknowledged_witness:
  "list_all is_step demo_workflow
   \<and> completed_steps (snd (execute_workflow studio oracle_on demo_workflow)) ''step_0'' = None
   \<and> completed_steps (snd (execute_workflow studio oracle_on demo_workflow)) ''step_1''
       = Some True
   \<and> completed_steps (snd (execute_workflow studio oracle_on demo_workflow)) ''step_2'' = None
   \<and> list_all is_step deep_workflow
   \<and> completed_steps (snd (execute_workflow studio oracle_on deep_workflow)) ''step_0'' = None
   \<and> completed_steps (snd (execute_workflow studio oracle_on deep_workflow)) ''step_1'' = None"
proof -
  note demo = completed_steps_iff_acknowledged [OF demo_workflow_is_step, of studio oracle_on,
      unfolded Let_def, THEN conjunct1, rule_format]
  have deep_wf: "list_all is_step deep_workflow"
    by (simp add: deep_workflow_def deep_step_def has_key_def)
  note deep = completed_steps_iff_acknowledged [OF deep_wf, of studio oracle_on,
      unfolded Let_def, THEN conjunct1, rule_format]
  have ids: "''step_0'' = ''step_'' @ str_nat 0" "''step_1'' = ''step_'' @ str_nat 1"
    "''step_2'' = ''step_'' @ str_nat 2"
    by (simp_all add: str_nat.simps digit_char_def)
  have len: "0 < length demo_workflow" "1 < length demo_workflow" "2 < length demo_workflow"
    "0 < length deep_workflow" "1 < length deep_workflow"
    by (simp_all add: demo_workflow_def deep_workflow_def)
  have send1: "SendMessageToAgent studio (request_to drummer encoded)
      = Inr \<lparr>success = True, response_message = ''queued''\<rparr>" for encoded
    by (simp add: studio_def drummer_def)
  have send2: "SendMessageToAgent studio (request_to tidy encoded)
      = Inl (RpcError ''unavailable'')" for encoded
    by (simp add: studio_def tidy_def)
  have deep0: "first_agent oracle_on (field (deep_workflow ! 0) ''agent_type'') = Some drummer"
    "json_dumps studio (task_message 0 (deep_workflow ! 0)) None = Inl RecursionError"
    using deep_message_rejected [of "''step_0''"]
    by (simp_all add: deep_workflow_def deep_step_def oracle_on_def tidy_def drummer_def
        field_def str_nat.simps digit_char_def)
  have s0: "completed_steps (snd (execute_workflow studio oracle_on demo_workflow)) ''step_0''
      = None"
    unfolding ids
    apply (subst demo [OF len(1)])
    apply (rule if_not_P)
    using demo_first_agents(1) apply simp
    done
  have s1: "completed_steps (snd (execute_workflow studio oracle_on demo_workflow)) ''step_1''
      = Some True"
    unfolding ids
    apply (subst demo [OF len(2)])
    apply (rule if_P)
    apply (rule conjI)
    subgoal using demo_first_agents(1) by simp
    subgoal
      apply (intro exI conjI)
         apply (rule demo_first_agents(2))
        apply (rule demo_messages(1))
       apply (rule send1)
      apply simp
      done
    done
  have s2: "completed_steps (snd (execute_workflow studio oracle_on demo_workflow)) ''step_2''
      = None"
    unfolding ids
    apply (subst demo [OF len(3)])
    apply (rule if_not_P)
    using demo_first_agents(3) send2 apply auto
    done
  have d0: "completed_steps (snd (execute_workflow studio oracle_on deep_workflow)) ''step_0''
      = None"
    unfolding ids
    apply (subst deep [OF len(4)])
    apply (rule if_not_P)
    using deep0 apply auto
    done
  have d1: "completed_steps (snd (execute_workflow studio oracle_on deep_workflow)) ''step_1''
      = None"
    unfolding ids
    apply (subst deep [OF len(5)])
    apply (rule if_not_P)
    using deep0 apply auto
    done
  from demo_workflow_is_step deep_wf s0 s1 s2 d0 d1 show ?thesis by blast
qed

text \<open>
  C5, as the code has it. In a Plan of well-formed steps in which the message of every
  step with a connected agent of its type is encoded by \<^verbatim>\<open>json.dumps\<close>, let the
  step at index \<open>k\<close> name an agent type that no connected agent has. Executing the
  Plan raises nothing; the outcome of that step in the report is the line that no agent
  of its type is available, and its identifier is not entered in
  \<^verbatim>\<open>completed_steps\<close>. The Plan is not aborted: the report has an outcome for
  every step, the requests sent are exactly the messages of the steps that have a
  connected agent, each to the first agent of its type, in the order of the Plan, and
  every later step has its own outcome.
\<close>

theorem unresolved_step_does_not_abort:
  assumes "list_all is_step workflow"
    and "\<forall>i < length workflow. \<forall>target_agent.
           first_agent self (field (workflow ! i) ''agent_type'') = Some target_agent
           \<longrightarrow> (\<exists>text. json_dumps ext (task_message i (workflow ! i)) None = Inr text)"
    and "k < length workflow"
    and "\<forall>agent \<in> set (map snd (connected_agents self)).
           PyStr (type agent) \<noteq> field (workflow ! k) ''agent_type''"
  shows "(let final = snd (execute_workflow ext self workflow);
              report = outcome_report (logged final)
          in fst (execute_workflow ext self workflow) = None
           \<and> report ! k = (k + 1, NoAgentAvailable (field (workflow ! k) ''agent_type''))
           \<and> completed_steps final (''step_'' @ str_nat k) = None
           \<and> length report = length workflow
           \<and> sent final =
               concat (map (\<lambda>(i, step).
                    case first_agent self (field step ''agent_type'') of
                      None \<Rightarrow> []
                    | Some target_agent \<Rightarrow>
                        (case json_dumps ext (task_message i step) None of
                           Inr text \<Rightarrow> [request_to target_agent text]
                         | Inl e \<Rightarrow> []))
                  (enumerate 0 workflow))
           \<and> (\<forall>j. k < j \<and> j < length workflow \<longrightarrow>
                (first_agent self (field (workflow ! j) ''agent_type'') = None
                   \<longrightarrow> report ! j
                        = (j + 1, NoAgentAvailable (field (workflow ! j) ''agent_type'')))
                \<and> (\<forall>target_agent text.
                      first_agent self (field (workflow ! j) ''agent_type'') = Some target_agent
                      \<longrightarrow> json_dumps ext (task_message j (workflow ! j)) None = Inr text
                      \<longrightarrow> request_to target_agent text \<in> set (sent final)
                          \<and> report ! j =
                              (j + 1,
                               answer_line j target_agent
                                 (SendMessageToAgent ext (request_to target_agent text))))))"
proof -
  from assms(2) have enc: "\<forall>i < length workflow. \<not> encoding_raises ext self i (workflow ! i)"
    by (simp add: encoding_raises_iff)
  let ?final = "snd (execute_workflow ext self workflow)"
  let ?report = "outcome_report (logged ?final)"
  from assms(4)
  have none: "first_agent self (field (workflow ! k) ''agent_type'') = None"
    by (auto simp: find_None_iff)
  have a: "fst (execute_workflow ext self workflow) = None"
    by (rule execute_workflow_no_exception [OF assms(1) enc])
  have b: "?report ! k = (k + 1, NoAgentAvailable (field (workflow ! k) ''agent_type''))"
    unfolding execute_workflow_report_nth [OF assms(1) enc assms(3)]
    by (simp add: outcome_line_def none)
  have c: "completed_steps ?final (''step_'' @ str_nat k) = None"
    using execute_workflow_completed_step [OF assms(1,3), of ext self]
    by (simp add: acknowledged_def none step_id_def)
  have d: "length ?report = length workflow"
    unfolding execute_workflow_report [OF assms(1) enc] by simp
  have e: "sent ?final =
      concat (map (\<lambda>(i, step).
           case first_agent self (field step ''agent_type'') of
             None \<Rightarrow> []
           | Some target_agent \<Rightarrow>
               (case json_dumps ext (task_message i step) None of
                  Inr text \<Rightarrow> [request_to target_agent text]
                | Inl e \<Rightarrow> []))
         (enumerate 0 workflow))"
    unfolding execute_workflow_sent [OF assms(1) enc] step_requests_def ..
  have f1: "?report ! j = (j + 1, NoAgentAvailable (field (workflow ! j) ''agent_type''))"
    if "j < length workflow"
      and "first_agent self (field (workflow ! j) ''agent_type'') = None" for j
    unfolding execute_workflow_report_nth [OF assms(1) enc that(1)]
    using that(2) by (simp add: outcome_line_def)
  have f2: "?report ! j =
      (j + 1,
       answer_line j target_agent (SendMessageToAgent ext (request_to target_agent encoded)))"
    if "j < length workflow"
      and "first_agent self (field (workflow ! j) ''agent_type'') = Some target_agent"
      and "json_dumps ext (task_message j (workflow ! j)) None = Inr encoded"
    for j target_agent encoded
    unfolding execute_workflow_report_nth [OF assms(1) enc that(1)]
    using that(2,3) by (simp add: outcome_line_def)
  have f3: "request_to target_agent encoded \<in> set (sent ?final)"
    if "j < length workflow"
      and "first_agent self (field (workflow ! j) ''agent_type'') = Some target_agent"
      and "json_dumps ext (task_message j (workflow ! j)) None = Inr encoded"
    for j target_agent encoded
  proof -
    from that(1) have "(j, workflow ! j) \<in> set (enumerate 0 workflow)"
      by (simp add: in_set_enumerate_eq)
    moreover from that(2,3)
    have "request_to target_agent encoded \<in> set (step_requests ext self j (workflow ! j))"
      by (simp add: step_requests_def)
    ultimately show ?thesis
      unfolding execute_workflow_sent [OF assms(1) enc] by force
  qed
  from a b c d e f1 f2 f3 show ?thesis
    unfolding Let_def by blast
qed

theorem unresolved_step_does_not_abort_witness:
  "list_all is_step demo_workflow
   \<and> (0::nat) < length demo_workflow
   \<and> first_agent oracle_on (field (demo_workflow ! 0) ''agent_type'') = None
   \<and> first_agent oracle_on (field (demo_workflow ! 1) ''agent_type'') = Some drummer
   \<and> first_agent oracle_on (field (demo_workflow ! 2) ''agent_type'') = Some tidy
   \<and> fst (execute_workflow studio oracle_on demo_workflow) = None
   \<and> outcome_report (logged (snd (execute_workflow studio oracle_on demo_workflow))) ! 0
       = (1, NoAgentAvailable (PyStr ''melody''))
   \<and> outcome_report (logged (snd (execute_workflow studio oracle_on demo_workflow)))
       = [(1, NoAgentAvailable (PyStr ''melody'')),
          (2, StepSent 2 ''Drummer''),
          (3, StepError 3 (RpcError ''unavailable''))]
   \<and> sent (snd (execute_workflow studio oracle_on demo_workflow))
       = [\<lparr>target_agent_id = ''agent-2'',
           message = json_text (PyDict [(''task'', PyStr ''generate_drums''),
                                        (''parameters'', PyDict [(''bars'', PyInt 4)]),
                                        (''step_id'', PyStr ''step_1'')])\<rparr>,
          \<lparr>target_agent_id = ''agent-1'',
           message = json_text (PyDict [(''task'', PyStr ''cleanup_recording''),
                                        (''parameters'', PyDict [(''clip_id'', PyNone)]),
                                        (''step_id'', PyStr ''step_2'')])\<rparr>]"
proof -
  have len: "(0::nat) < length demo_workflow"
    by (simp add: demo_workflow_def)
  have ty: "field (demo_workflow ! 0) ''agent_type'' = PyStr ''melody''"
    by (simp add: demo_workflow_def field_def)
  have no_melody: "\<forall>agent \<in> set (map snd (connected_agents oracle_on)).
      PyStr (type agent) \<noteq> field (demo_workflow ! 0) ''agent_type''"
    unfolding ty by (simp add: oracle_on_def tidy_def drummer_def)
  note inst = unresolved_step_does_not_abort [OF demo_workflow_is_step demo_encoded len
      no_melody, unfolded Let_def ty]
  from inst have none: "fst (execute_workflow studio oracle_on demo_workflow) = None"
    by (rule conjunct1)
  from inst
  have "outcome_report (logged (snd (execute_workflow studio oracle_on demo_workflow))) ! 0
       = (0 + 1, NoAgentAvailable (PyStr ''melody''))"
    by (rule conjunct2 [THEN conjunct1])
  then have first:
    "outcome_report (logged (snd (execute_workflow studio oracle_on demo_workflow))) ! 0
       = (1, NoAgentAvailable (PyStr ''melody''))"
    by simp
  have rep: "outcome_report (logged (snd (execute_workflow studio oracle_on demo_workflow)))
       = [(1, NoAgentAvailable (PyStr ''melody'')),
          (2, StepSent 2 ''Drummer''),
          (3, StepError 3 (RpcError ''unavailable''))]"
    by (simp add: demo_run outcome_report_def)
  have snt: "sent (snd (execute_workflow studio oracle_on demo_workflow))
       = [\<lparr>target_agent_id = ''agent-2'',
           message = json_text (PyDict [(''task'', PyStr ''generate_drums''),
                                        (''parameters'', PyDict [(''bars'', PyInt 4)]),
                                        (''step_id'', PyStr ''step_1'')])\<rparr>,
          \<lparr>target_agent_id = ''agent-1'',
           message = json_text (PyDict [(''task'', PyStr ''cleanup_recording''),
                                        (''parameters'', PyDict [(''clip_id'', PyNone)]),
                                        (''step_id'', PyStr ''step_2'')])\<rparr>]"
    unfolding demo_run by simp
  from demo_workflow_is_step len demo_first_agents none first rep snt
  show ?thesis by blast
qed

text \<open>
  C5, as the claim states it, fails. In the studio, whose directory has no melody
  agent, the Plan is a melody step, a step for the drummer with parameters nested
  deeper than the encoder accepts, and an ordinary step for the drummer. The melody
  step is marked; then \<^verbatim>\<open>json.dumps(message)\<close> raises for the second step, the
  exception leaves \<^verbatim>\<open>execute_workflow\<close>, and the third step is not attempted:
  nothing is sent and the report has one outcome.
\<close>

theorem unresolved_step_counterexample:
  "list_all is_step melody_then_deep_workflow
   \<and> length melody_then_deep_workflow = 3
   \<and> first_agent oracle_on (field (melody_then_deep_workflow ! 0) ''agent_type'') = None
   \<and> first_agent oracle_on (field (melody_then_deep_workflow ! 2) ''agent_type'')
       = Some drummer
   \<and> fst (execute_workflow studio oracle_on melody_then_deep_workflow) = Some RecursionError
   \<and> outcome_report (logged (snd (execute_workflow studio oracle_on melody_then_deep_workflow)))
       = [(1, NoAgentAvailable (PyStr ''melody''))]
   \<and> sent (snd (execute_workflow studio oracle_on melody_then_deep_workflow)) = []"
  by (simp add: melody_then_deep_run outcome_report_def)
    (simp add: melody_then_deep_workflow_def deep_step_def has_key_def field_def oracle_on_def
      tidy_def drummer_def)

section \<open>A step with an unmet dependency\<close>

text \<open>
  C4. In a Plan of well-formed steps, let the loop reach the step at index \<open>k\<close>, in
  some state, and let the step depend on an identifier that is no key of
  \<^verbatim>\<open>completed_steps\<close> in that state. The pass of the loop for this step logs the
  unmet dependency and then goes on as for any step: without a connected agent of the
  step's type it logs that; with one, it encodes the step's message (an exception of
  the encoder leaves the method) and sends it to the first agent of the type, logs the
  outcome line for the answer, and enters the step identifier in
  \<^verbatim>\<open>completed_steps\<close> when the answer is a success. The unmet dependency changes
  nothing but the log. The execution of the Plan is this pass, followed by the loop
  over the later steps.
\<close>

theorem unmet_dependency_is_advisory:
  assumes "list_all is_step workflow"
    and "k < length workflow"
    and "execute_steps ext self (take k (enumerate 0 workflow)) (initial_state workflow)
           = (None, reached)"
    and "PyStr dep \<in> set (step_dependencies (workflow ! k))"
    and "completed_steps reached dep = None"
  shows "(let step = workflow ! k;
              lines = StepLine (k + 1) (field step ''action'') (field step ''agent_type'')
                # dependency_lines (completed_steps reached) (step_dependencies step)
          in DependencyNotCompleted (PyStr dep) \<in> set lines
           \<and> execute_step ext self k step reached =
               (case first_agent self (field step ''agent_type'') of
                  None \<Rightarrow>
                    (None,
                     reached\<lparr>logged := logged reached @ lines
                       @ [NoAgentAvailable (field step ''agent_type'')]\<rparr>)
                | Some target_agent \<Rightarrow>
                    (case json_dumps ext (task_message k step) None of
                       Inl e \<Rightarrow> (Some e, reached\<lparr>logged := logged reached @ lines\<rparr>)
                     | Inr text \<Rightarrow>
                         (None,
                          \<lparr>completed_steps =
                             (case SendMessageToAgent ext (request_to target_agent text) of
                                Inr resp \<Rightarrow>
                                  if success resp
                                  then (completed_steps reached)(''step_'' @ str_nat k \<mapsto> True)
                                  else completed_steps reached
                              | Inl e \<Rightarrow> completed_steps reached),
                           logged = logged reached @ lines
                             @ [answer_line k target_agent
                                  (SendMessageToAgent ext (request_to target_agent text))],
                           sent = sent reached @ [request_to target_agent text]\<rparr>)))
           \<and> execute_workflow ext self workflow =
               (case execute_step ext self k step reached of
                  (Some e, st') \<Rightarrow> (Some e, st')
                | (None, st') \<Rightarrow>
                    execute_steps ext self (drop (Suc k) (enumerate 0 workflow)) st'))"
proof -
  let ?step = "workflow ! k"
  from assms(1,2) have wf: "is_step ?step"
    by (simp add: list_all_length)
  from assms(4,5)
  have a: "DependencyNotCompleted (PyStr dep)
      \<in> set (StepLine (k + 1) (field ?step ''action'') (field ?step ''agent_type'')
          # dependency_lines (completed_steps reached) (step_dependencies ?step))"
    by simp
  note b = execute_step_wf [OF wf, of ext self k reached, unfolded Let_def]
  define before where "before = take k (enumerate 0 workflow)"
  define later where "later = drop (Suc k) (enumerate 0 workflow)"
  from assms(2) have klen: "k < length (enumerate 0 workflow)"
    by simp
  from assms(2) have nth: "enumerate 0 workflow ! k = (k, ?step)"
    by (simp add: nth_enumerate_eq)
  have parts: "enumerate 0 workflow = before @ (k, ?step) # later"
    using id_take_nth_drop [OF klen] unfolding nth before_def later_def .
  from assms(3) have pre: "execute_steps ext self before (initial_state workflow)
      = (None, reached)"
    unfolding before_def .
  have "execute_workflow ext self workflow =
      execute_steps ext self ((k, ?step) # later) reached"
    unfolding execute_workflow_def parts execute_steps_append pre by simp
  then have c: "execute_workflow ext self workflow =
      (case execute_step ext self k ?step reached of
         (Some e, st') \<Rightarrow> (Some e, st')
       | (None, st') \<Rightarrow> execute_steps ext self (drop (Suc k) (enumerate 0 workflow)) st')"
    unfolding later_def by simp
  from a b c show ?thesis
    unfolding Let_def by blast
qed

theorem unmet_dependency_is_advisory_witness:
  "list_all is_step demo_workflow
   \<and> (1::nat) < length demo_workflow
   \<and> execute_steps studio oracle_on (take 1 (enumerate 0 demo_workflow))
       (initial_state demo_workflow) = (None, demo_reached)
   \<and> PyStr ''step_0'' \<in> set (step_dependencies (demo_workflow ! 1))
   \<and> completed_steps demo_reached ''step_0'' = None
   \<and> execute_step studio oracle_on 1 (demo_workflow ! 1) demo_reached =
       (None,
        \<lparr>completed_steps = [''step_1'' \<mapsto> True],
         logged =
           [ExecutingWorkflow 3,
            StepLine 1 (PyStr ''generate_melody'') (PyStr ''melody''),
            NoAgentAvailable (PyStr ''melody''),
            StepLine 2 (PyStr ''generate_drums'') (PyStr ''percussion''),
            DependencyNotCompleted (PyStr ''step_0''),
            StepSent 2 ''Drummer''],
         sent =
           [\<lparr>target_agent_id = ''agent-2'',
             message = json_text (PyDict [(''task'', PyStr ''generate_drums''),
                                          (''parameters'', PyDict [(''bars'', PyInt 4)]),
                                          (''step_id'', PyStr ''step_1'')])\<rparr>]\<rparr>)"
proof -
  have len: "(1::nat) < length demo_workflow"
    by (simp add: demo_workflow_def)
  have reach: "execute_steps studio oracle_on (take 1 (enumerate 0 demo_workflow))
       (initial_state demo_workflow) = (None, demo_reached)"
    by (simp add: initial_state_def demo_workflow_def demo_reached_def execute_step_def
        step_line_values_def dependency_check_def resolve_and_send_def log_line_def
        dict_get_def oracle_on_def tidy_def drummer_def Let_def)
  have dep: "PyStr ''step_0'' \<in> set (step_dependencies (demo_workflow ! 1))"
    by (simp add: demo_workflow_def field_def)
  have absent: "completed_steps demo_reached ''step_0'' = None"
    by (simp add: demo_reached_def)
  note inst = unmet_dependency_is_advisory [OF demo_workflow_is_step len reach dep absent,
      unfolded Let_def, THEN conjunct2, THEN conjunct1]
  have "execute_step studio oracle_on 1 (demo_workflow ! 1) demo_reached =
       (None,
        \<lparr>completed_steps = [''step_1'' \<mapsto> True],
         logged =
           [ExecutingWorkflow 3,
            StepLine 1 (PyStr ''generate_melody'') (PyStr ''melody''),
            NoAgentAvailable (PyStr ''melody''),
            StepLine 2 (PyStr ''generate_drums'') (PyStr ''percussion''),
            DependencyNotCompleted (PyStr ''step_0''),
            StepSent 2 ''Drummer''],
         sent =
           [\<lparr>target_agent_id = ''agent-2'',
             message = json_text (PyDict [(''task'', PyStr ''generate_drums''),
                                          (''parameters'', PyDict [(''bars'', PyInt 4)]),
                                          (''step_id'', PyStr ''step_1'')])\<rparr>]\<rparr>)"
    unfolding inst
    by (simp add: demo_workflow_def demo_reached_def field_def oracle_on_def tidy_def
        drummer_def studio_def dumps_def recursion_limit_def str_nat.simps digit_char_def)
  with demo_workflow_is_step len reach dep absent show ?thesis by blast
qed

end
